theory Spec2Isabelle
  imports Main "HOL-Library.Word"
begin

section \<open>JavaScript strings\<close>

text \<open>
  A JavaScript string is a sequence of UTF-16 code units: \<^verbatim>\<open>length\<close> counts them and
  \<^verbatim>\<open>slice\<close> cuts between them. ASCII literals of the source are written with
  \<open>ascii\<close>; literals with Japanese text are given by their code units.
\<close>

type_synonym jsstring = "16 word list"

definition ascii :: "string \<Rightarrow> jsstring" where
  "ascii s = map (\<lambda>c. of_nat (of_char c)) s"

text \<open>The code units matched by \<^verbatim>\<open>\s\<close> and stripped by \<^verbatim>\<open>trim()\<close>
  (ECMAScript WhiteSpace and LineTerminator).\<close>

definition isWhiteSpace :: "16 word \<Rightarrow> bool" where
  "isWhiteSpace c \<longleftrightarrow>
     c \<in> set [0x9, 0xA, 0xB, 0xC, 0xD, 0x20, 0xA0, 0x1680, 0x2028, 0x2029, 0x202F, 0x205F,
              0x3000, 0xFEFF]
     \<or> (0x2000 \<le> c \<and> c \<le> 0x200A)"

definition trim :: "jsstring \<Rightarrow> jsstring" where
  "trim s = rev (dropWhile isWhiteSpace (rev (dropWhile isWhiteSpace s)))"

definition startsWith :: "jsstring \<Rightarrow> jsstring \<Rightarrow> bool" where
  "startsWith s p \<longleftrightarrow> take (length p) s = p"

text \<open>\<^verbatim>\<open>toLowerCase()\<close> on the letters A to Z. The source lower-cases a key only to
  test it for the prefix \<^verbatim>\<open>ya29.\<close>; no code unit outside A to Z lower-cases to one of
  the five units of that prefix, so the test is the same.\<close>

definition toLowerCase :: "jsstring \<Rightarrow> jsstring" where
  "toLowerCase s = map (\<lambda>c. if 0x41 \<le> c \<and> c \<le> 0x5A then c + 0x20 else c) s"

text \<open>\<^verbatim>\<open>a || b\<close> on strings: the empty string is falsy.\<close>

definition orElse :: "jsstring \<Rightarrow> jsstring \<Rightarrow> jsstring" where
  "orElse a b = (if a \<noteq> [] then a else b)"

text \<open>Decimal rendering of a number inside a template literal.\<close>

fun decimal :: "nat \<Rightarrow> jsstring" where
  "decimal n = (if n < 10 then [of_nat (48 + n)] else decimal (n div 10) @ [of_nat (48 + n mod 10)])"

text \<open>\<^verbatim>\<open>text.replace(/\s+/g, ' ')\<close>: every maximal run of white space becomes one space.\<close>

function collapseSpaces :: "jsstring \<Rightarrow> jsstring" where
  "collapseSpaces [] = []"
| "collapseSpaces (c # cs) =
     (if isWhiteSpace c then 0x20 # collapseSpaces (dropWhile isWhiteSpace cs)
      else c # collapseSpaces cs)"
  by pat_completeness auto
termination
  by (relation "measure length") (auto simp: less_Suc_eq_le length_dropWhile_le)

text \<open>\<^verbatim>\<open>xs.slice(-n)\<close> for a positive \<open>n\<close>: the last \<open>n\<close> elements, all of them when
  there are fewer.\<close>

definition sliceLast :: "nat \<Rightarrow> 'a list \<Rightarrow> 'a list" where
  "sliceLast n xs = drop (length xs - n) xs"

text \<open>\<^verbatim>\<open>xs.join(sep)\<close>.\<close>

fun join :: "jsstring \<Rightarrow> jsstring list \<Rightarrow> jsstring" where
  "join sep [] = []"
| "join sep [x] = x"
| "join sep (x # y # ys) = x @ sep @ join sep (y # ys)"

text \<open>\<^verbatim>\<open>xs.find(p)\<close> and \<^verbatim>\<open>xs.findIndex(p)\<close> (\<open>-1\<close> when nothing matches).\<close>

fun findFirst :: "('a \<Rightarrow> bool) \<Rightarrow> 'a list \<Rightarrow> 'a option" where
  "findFirst p [] = None"
| "findFirst p (x # xs) = (if p x then Some x else findFirst p xs)"

fun findIndex :: "('a \<Rightarrow> bool) \<Rightarrow> 'a list \<Rightarrow> int" where
  "findIndex p [] = -1"
| "findIndex p (x # xs) =
     (if p x then 0 else (let i = findIndex p xs in if i < 0 then -1 else i + 1))"

section \<open>Data model (types.ts)\<close>

datatype LLMProvider = gemini | openai | groq | perplexity | openrouter | openai_compatible

datatype ChatStatus = IDLE | ACTIVE | PAUSED | COMPLETED | ERROR

record AgentConfig =
  agent_id :: jsstring
  agent_name :: jsstring
  systemPrompt :: jsstring
  color :: jsstring
  avatarEmoji :: jsstring

record Message =
  msg_id :: jsstring
  senderId :: jsstring
  msg_text :: jsstring
  timestamp :: nat

record AppConfig =
  apiKey :: jsstring
  provider :: LLMProvider
  model :: jsstring
  agents :: "AgentConfig list"
  topic :: jsstring
  maxTurns :: int
  globalRules :: jsstring

text \<open>A thrown \<^verbatim>\<open>Error\<close>; the callers read only its \<^verbatim>\<open>message\<close>.\<close>

datatype js_error = Error (message: jsstring)

section \<open>The session store and the response generator (services/geminiService.ts)\<close>

definition detectProviderFromApiKey :: "jsstring \<Rightarrow> LLMProvider" where
  "detectProviderFromApiKey key =
     (let trimmed = trim key; lower = toLowerCase trimmed in
      if trimmed = [] then gemini
      else if startsWith trimmed (ascii ''AIza'') \<or> startsWith lower (ascii ''ya29.'') then gemini
      else if startsWith trimmed (ascii ''gsk_'') then groq
      else if startsWith trimmed (ascii ''pplx-'') then perplexity
      else if startsWith trimmed (ascii ''sk-or-'') \<or> startsWith trimmed (ascii ''or-'')
        then openrouter
      else if startsWith trimmed (ascii ''sk-'') then openai
      else openai_compatible)"

text \<open>The first model id of \<^verbatim>\<open>PROVIDER_MODEL_OPTIONS[provider]\<close>.\<close>

fun getDefaultModelForProvider :: "LLMProvider \<Rightarrow> jsstring" where
  "getDefaultModelForProvider gemini = ascii ''gemini-2.5-flash''"
| "getDefaultModelForProvider openai = ascii ''gpt-4o-mini''"
| "getDefaultModelForProvider groq = ascii ''llama-3.3-70b-versatile''"
| "getDefaultModelForProvider perplexity = ascii ''llama-3.1-sonar-large-128k-chat''"
| "getDefaultModelForProvider openrouter = ascii ''gpt-4o-mini''"
| "getDefaultModelForProvider openai_compatible = ascii ''gpt-4o-mini''"

text \<open>
  A Gemini session is an object of the vendor's SDK, created by \<^verbatim>\<open>ai.chats.create\<close>
  from a model id and a system instruction. Its dialogue history lives inside the SDK; this
  module only stores the object and calls \<^verbatim>\<open>sendMessage\<close> on it. An OpenAI-style session
  is the list of messages kept by this module itself.
\<close>

record Chat =
  chat_model :: jsstring
  systemInstruction :: jsstring

datatype role = RoleSystem | RoleUser | RoleAssistant

record OpenAIMessage =
  role :: role
  content :: jsstring

text \<open>The module-level variables.\<close>

record service =
  chatSessions :: "jsstring \<rightharpoonup> Chat"
  openAISessions :: "jsstring \<rightharpoonup> OpenAIMessage list"
  activeProvider :: LLMProvider
  activeModel :: jsstring
  activeApiKey :: jsstring

definition initialService :: service where
  "initialService =
     \<lparr>chatSessions = Map.empty, openAISessions = Map.empty, activeProvider = gemini,
      activeModel = [], activeApiKey = []\<rparr>"

text \<open>The persona of a session: a line break, the agent's prompt, a separator line
  announcing the rules of the whole meeting, the rules, a line break.\<close>

definition rulesSeparator :: jsstring where
  "rulesSeparator =
     [0xA, 0xA, 0x3010, 0x4F1A, 0x8B70, 0x5168, 0x4F53, 0x306E, 0x91CD, 0x8981, 0x30EB, 0x30FC,
      0x30EB, 0x3011, 0xA]"

definition combinedSystemInstruction :: "AgentConfig \<Rightarrow> jsstring \<Rightarrow> jsstring" where
  "combinedSystemInstruction agent rules =
     [0xA] @ systemPrompt agent @ rulesSeparator @ rules @ [0xA]"

definition apiKeyRequired :: js_error where
  "apiKeyRequired = Error (ascii ''API Key is required'')"

text \<open>
  \<^verbatim>\<open>initializeChats\<close>, the copy that trims the key first. The argument \<open>sdk\<close> is the
  exception that constructing the vendor's client raises, if it raises one; it is raised
  after the module variables have been assigned and the session maps cleared.
  The result pairs what the call returns or throws with the module variables afterwards.
\<close>

definition initializeChats ::
  "js_error option \<Rightarrow> jsstring \<Rightarrow> jsstring \<Rightarrow> AgentConfig list \<Rightarrow> jsstring \<Rightarrow> service
     \<Rightarrow> (js_error + unit) \<times> service" where
  "initializeChats sdk key modelName ags rules sv =
     (let normalizedKey = trim key in
      if normalizedKey = [] then (Inl apiKeyRequired, sv)
      else
        let prov = detectProviderFromApiKey normalizedKey;
            mdl = orElse modelName (getDefaultModelForProvider prov);
            cleared = sv\<lparr>activeProvider := prov, activeModel := mdl,
                         activeApiKey := normalizedKey,
                         chatSessions := Map.empty, openAISessions := Map.empty\<rparr>
        in if prov = gemini then
             (case sdk of
                Some e \<Rightarrow> (Inl e, cleared)
              | None \<Rightarrow>
                 (Inr (),
                  cleared\<lparr>chatSessions :=
                    foldl (\<lambda>m agent. m(agent_id agent \<mapsto>
                             \<lparr>chat_model = mdl,
                              systemInstruction = combinedSystemInstruction agent rules\<rparr>))
                          Map.empty ags\<rparr>))
           else
             (Inr (),
              cleared\<lparr>openAISessions :=
                foldl (\<lambda>m agent. m(agent_id agent \<mapsto>
                         [\<lparr>role = RoleSystem,
                           content = combinedSystemInstruction agent rules\<rparr>]))
                      Map.empty ags\<rparr>))"

text \<open>The other copy of \<^verbatim>\<open>initializeChats\<close> in the repository: the same body, but the key
  is tested and stored as it is passed.\<close>

definition initializeChats_untrimmed ::
  "js_error option \<Rightarrow> jsstring \<Rightarrow> jsstring \<Rightarrow> AgentConfig list \<Rightarrow> jsstring \<Rightarrow> service
     \<Rightarrow> (js_error + unit) \<times> service" where
  "initializeChats_untrimmed sdk key modelName ags rules sv =
     (if key = [] then (Inl apiKeyRequired, sv)
      else
        let prov = detectProviderFromApiKey key;
            mdl = orElse modelName (getDefaultModelForProvider prov);
            cleared = sv\<lparr>activeProvider := prov, activeModel := mdl, activeApiKey := key,
                         chatSessions := Map.empty, openAISessions := Map.empty\<rparr>
        in if prov = gemini then
             (case sdk of
                Some e \<Rightarrow> (Inl e, cleared)
              | None \<Rightarrow>
                 (Inr (),
                  cleared\<lparr>chatSessions :=
                    foldl (\<lambda>m agent. m(agent_id agent \<mapsto>
                             \<lparr>chat_model = mdl,
                              systemInstruction = combinedSystemInstruction agent rules\<rparr>))
                          Map.empty ags\<rparr>))
           else
             (Inr (),
              cleared\<lparr>openAISessions :=
                foldl (\<lambda>m agent. m(agent_id agent \<mapsto>
                         [\<lparr>role = RoleSystem,
                           content = combinedSystemInstruction agent rules\<rparr>]))
                      Map.empty ags\<rparr>))"

text \<open>
  What the outside world answers to one call of \<^verbatim>\<open>generateResponse\<close>.
  For a Gemini session: \<^verbatim>\<open>session.sendMessage\<close> rejects, or resolves with a result whose
  \<^verbatim>\<open>text\<close> may be undefined. For the other providers: \<^verbatim>\<open>fetch\<close> rejects; or the
  response is not ok, and reading its body as text rejects or gives the text; or the
  response is ok and \<^verbatim>\<open>response.json()\<close> rejects; or it gives a document, of which the
  code reads \<^verbatim>\<open>choices[0].message.content\<close>: absent or null, a string, or some other value,
  on which calling \<^verbatim>\<open>trim\<close> raises a TypeError.
\<close>

datatype sendMessage_outcome =
  SendRejected js_error
| SendResolved "jsstring option"

datatype json_content =
  ContentAbsent
| ContentString jsstring
| ContentNotString js_error

datatype fetch_outcome =
  FetchRejected js_error
| ResponseNotOk nat "js_error + jsstring"
| BodyNotJson js_error
| BodyJson json_content

record reply =
  sendMessage :: sendMessage_outcome
  fetch :: fetch_outcome

definition noResponse :: jsstring where
  "noResponse = ascii ''[No response generated]''"

definition sessionNotInitialized :: "jsstring \<Rightarrow> js_error" where
  "sessionNotInitialized agentId =
     Error (ascii ''Chat Session for agent '' @ agentId @ ascii '' not initialized'')"

text \<open>\<^verbatim>\<open>data?.choices?.[0]?.message?.content?.trim() || "[No response generated]"\<close>.\<close>

fun readAnswer :: "json_content \<Rightarrow> js_error + jsstring" where
  "readAnswer ContentAbsent = Inr noResponse"
| "readAnswer (ContentString s) = Inr (orElse (trim s) noResponse)"
| "readAnswer (ContentNotString e) = Inl e"

definition generateResponse ::
  "reply \<Rightarrow> jsstring \<Rightarrow> jsstring \<Rightarrow> service \<Rightarrow> (js_error + jsstring) \<times> service" where
  "generateResponse r agentId inputMessage sv =
     (if activeProvider sv = gemini then
        (case chatSessions sv agentId of
           None \<Rightarrow> (Inl (sessionNotInitialized agentId), sv)
         | Some session \<Rightarrow>
            (case sendMessage r of
               SendRejected e \<Rightarrow> (Inl e, sv)
             | SendResolved t \<Rightarrow>
                (Inr (case t of None \<Rightarrow> noResponse | Some s \<Rightarrow> orElse s noResponse), sv)))
      else
        (case openAISessions sv agentId of
           None \<Rightarrow> (Inl (sessionNotInitialized agentId), sv)
         | Some messages \<Rightarrow>
            (case fetch r of
               FetchRejected e \<Rightarrow> (Inl e, sv)
             | ResponseNotOk code body \<Rightarrow>
                (case body of
                   Inl e \<Rightarrow> (Inl e, sv)
                 | Inr txt \<Rightarrow>
                    (Inl (Error (ascii ''OpenAI API error ('' @ decimal code @ ascii ''): ''
                                 @ txt)), sv))
             | BodyNotJson e \<Rightarrow> (Inl e, sv)
             | BodyJson c \<Rightarrow>
                (case readAnswer c of
                   Inl e \<Rightarrow> (Inl e, sv)
                 | Inr answer \<Rightarrow>
                    (Inr answer,
                     sv\<lparr>openAISessions := (openAISessions sv)(agentId \<mapsto>
                          messages @ [\<lparr>role = RoleUser, content = inputMessage\<rparr>,
                                      \<lparr>role = RoleAssistant, content = answer\<rparr>])\<rparr>)))))"

section \<open>The orchestrator (App.tsx)\<close>

text \<open>
  The component's state: the \<^verbatim>\<open>useState\<close> cells that the orchestration reads or writes,
  and the \<^verbatim>\<open>hasSummarizedRef\<close> latch. A handler reads the values of the render it was
  created in and queues its updates, which React applies together afterwards, those of one
  cell in the order they were queued; the model reads every value from the state the
  handler starts in and applies the updates in source order.
\<close>

record app_state =
  config :: AppConfig
  messages :: "Message list"
  status :: ChatStatus
  turnCount :: nat
  currentSpeakerId :: "jsstring option"
  userInput :: jsstring
  isSummarizing :: bool
  isConfigOpen :: bool
  hasSummarizedRef :: bool

text \<open>The arguments of one call of \<^verbatim>\<open>generateMeetingSummary\<close>; the fallback of the
  \<^verbatim>\<open>catch\<close> branch reads the same \<^verbatim>\<open>messages\<close> and \<^verbatim>\<open>config.topic\<close>.\<close>

record summary_request =
  sr_messages :: "Message list"
  sr_topic :: jsstring
  sr_globalRules :: jsstring
  sr_apiKey :: jsstring
  sr_provider :: LLMProvider
  sr_model :: jsstring

text \<open>
  What an execution of \<^verbatim>\<open>processTurn\<close> keeps in its closure across its two
  \<^verbatim>\<open>await\<close>s: the speaker and the roster of the render it was started in, and the prompt.
\<close>

record turn_closure =
  tc_speaker :: jsstring
  tc_prompt :: jsstring
  tc_agents :: "AgentConfig list"

text \<open>
  The whole program state: the component, the module variables of the service, and a
  record of the external calls made so far, which no function reads: the calls of
  \<^verbatim>\<open>generateResponse\<close> (agent id and prompt), the calls of \<^verbatim>\<open>generateMeetingSummary\<close>,
  and the summary call whose promise has not settled yet. The last two fields are what is
  under way of the automatic turn: the pacing timer of the latest run of its effect, until
  it fires or the effect's cleanup clears it, and the calls of \<^verbatim>\<open>generateResponse\<close> that
  have not settled, each with its closure and with what it will settle with.
\<close>

record world =
  app :: app_state
  svc :: service
  generateCalls :: "(jsstring \<times> jsstring) list"
  summaryCalls :: "summary_request list"
  pendingSummary :: "summary_request option"
  pendingTimer :: "turn_closure option"
  inflight :: "(turn_closure \<times> (js_error + jsstring)) list"

definition SYSTEM :: jsstring where "SYSTEM = ascii ''SYSTEM''"
definition USER :: jsstring where "USER = ascii ''USER''"
definition SUMMARY :: jsstring where "SUMMARY = ascii ''SUMMARY''"

text \<open>The values of \<^verbatim>\<open>safeRandomId()\<close> and \<^verbatim>\<open>Date.now()\<close> for one new message.\<close>

type_synonym stamp = "jsstring \<times> nat"

definition addMessage :: "stamp \<Rightarrow> jsstring \<Rightarrow> jsstring \<Rightarrow> app_state \<Rightarrow> app_state" where
  "addMessage st sender txt a =
     a\<lparr>messages := messages a @
          [\<lparr>msg_id = fst st, senderId = sender, msg_text = txt, timestamp = snd st\<rparr>]\<rparr>"

text \<open>\<^verbatim>\<open>getEffectiveApiKey\<close>; \<open>envKey\<close> is the build-time constant \<^verbatim>\<open>ENV_API_KEY\<close>.\<close>

definition getEffectiveApiKey :: "jsstring \<Rightarrow> AppConfig \<Rightarrow> jsstring" where
  "getEffectiveApiKey envKey cfg = orElse (trim (apiKey cfg)) (orElse (trim envKey) [])"

definition resetConversationState :: "app_state \<Rightarrow> app_state" where
  "resetConversationState a =
     a\<lparr>status := IDLE, messages := [], turnCount := 0, currentSpeakerId := None,
       hasSummarizedRef := False, isSummarizing := False\<rparr>"

text \<open>\<^verbatim>\<open>!currentSpeakerId\<close> is true for null and for the empty string.\<close>

definition speakerSet :: "jsstring option \<Rightarrow> bool" where
  "speakerSet sp = (case sp of None \<Rightarrow> False | Some i \<Rightarrow> i \<noteq> [])"

text \<open>\<^verbatim>\<open>if (!currentSpeakerId && config.agents.length > 0) setCurrentSpeakerId(config.agents[0].id)\<close>\<close>

definition firstSpeakerIfNone :: "AppConfig \<Rightarrow> jsstring option \<Rightarrow> jsstring option" where
  "firstSpeakerIfNone cfg sp =
     (if \<not> speakerSet sp \<and> length (agents cfg) > 0 then Some (agent_id (agents cfg ! 0))
      else sp)"

definition keyMissing :: jsstring where
  "keyMissing = ascii ''API Key is missing. Please check the configuration.''"

text \<open>"Initialising the AI agents failed: " and its default detail "Check the API key."\<close>

definition initFailed :: jsstring where
  "initFailed =
     [0x41, 0x49, 0x30A8, 0x30FC, 0x30B8, 0x30A7, 0x30F3, 0x30C8, 0x306E, 0x521D, 0x671F, 0x5316,
      0x306B, 0x5931, 0x6557, 0x3057, 0x307E, 0x3057, 0x305F, 0x3A, 0x20]"

definition initFailedDefault :: jsstring where
  "initFailedDefault =
     [0x41, 0x50, 0x49, 0x30AD, 0x30FC, 0x3092, 0x78BA, 0x8A8D, 0x3057, 0x3066, 0x304F, 0x3060,
      0x3055, 0x3044, 0x3002]"

text \<open>The announcement \<^verbatim>\<open>Discussion Started: "<topic>"\<close>.\<close>

definition announcement :: "jsstring \<Rightarrow> jsstring" where
  "announcement tp = ascii ''Discussion Started: '' @ [0x22] @ tp @ [0x22]"

definition handleStart :: "jsstring \<Rightarrow> js_error option \<Rightarrow> stamp \<Rightarrow> world \<Rightarrow> world" where
  "handleStart envKey sdk st w =
     (let a = app w; cfg = config a in
      if trim (topic cfg) = [] then w
      else
        let normalizedApiKey = getEffectiveApiKey envKey cfg in
        if normalizedApiKey = [] then w\<lparr>app := addMessage st SYSTEM keyMissing a\<rparr>
        else
          let prov = detectProviderFromApiKey normalizedApiKey;
              mdl = getDefaultModelForProvider prov;
              a1 = a\<lparr>config := cfg\<lparr>apiKey := normalizedApiKey, provider := prov, model := mdl\<rparr>,
                     messages := [], turnCount := 0, status := ACTIVE,
                     hasSummarizedRef := False, isSummarizing := False\<rparr>
          in case initializeChats sdk normalizedApiKey mdl (agents cfg) (globalRules cfg) (svc w) of
               (Inl e, sv') \<Rightarrow>
                 w\<lparr>app := (addMessage st SYSTEM
                              (initFailed @ orElse (message e) initFailedDefault) a1)
                            \<lparr>status := ERROR\<rparr>,
                   svc := sv'\<rparr>
             | (Inr u, sv') \<Rightarrow>
                 let a2 = (addMessage st SYSTEM (announcement (topic cfg)) a1)
                            \<lparr>isConfigOpen := False\<rparr>
                 in w\<lparr>app := (if length (agents cfg) > 0
                               then a2\<lparr>currentSpeakerId := Some (agent_id (agents cfg ! 0))\<rparr>
                               else a2),
                      svc := sv'\<rparr>)"

text \<open>"The conversation was ended by the user."\<close>

definition stoppedByUser :: jsstring where
  "stoppedByUser =
     [0x30E6, 0x30FC, 0x30B6, 0x30FC, 0x306B, 0x3088, 0x3063, 0x3066, 0x4F1A, 0x8A71, 0x304C,
      0x7D42, 0x4E86, 0x3057, 0x307E, 0x3057, 0x305F, 0x3002]"

definition handleStop :: "stamp \<Rightarrow> world \<Rightarrow> world" where
  "handleStop st w =
     w\<lparr>app := (addMessage st SYSTEM stoppedByUser ((app w)\<lparr>status := COMPLETED\<rparr>))
                \<lparr>currentSpeakerId := None\<rparr>\<rparr>"

definition handleReset :: "world \<Rightarrow> world" where
  "handleReset w = w\<lparr>app := resetConversationState (app w)\<rparr>"

text \<open>
  \<^verbatim>\<open>handleUserSubmit\<close> reads the text from the \<^verbatim>\<open>userInput\<close> cell. The first stamp is for
  the user's message, the second for the system message of a failed implicit start.
\<close>

definition handleUserSubmit ::
  "jsstring \<Rightarrow> js_error option \<Rightarrow> stamp \<Rightarrow> stamp \<Rightarrow> world \<Rightarrow> world" where
  "handleUserSubmit envKey sdk st1 st2 w =
     (let a = app w; cfg = config a in
      if trim (userInput a) = [] then w
      else
        let a1 = (addMessage st1 USER (userInput a) a)\<lparr>userInput := []\<rparr> in
        if status a = IDLE \<or> status a = ERROR then
          let normalizedApiKey = getEffectiveApiKey envKey cfg in
          if normalizedApiKey = [] then
            w\<lparr>app := addMessage st2 SYSTEM (ascii ''Please enter an API Key to start.'') a1\<rparr>
          else
            let prov = detectProviderFromApiKey normalizedApiKey;
                mdl = orElse (model cfg) (getDefaultModelForProvider prov)
            in case initializeChats sdk normalizedApiKey mdl (agents cfg) (globalRules cfg) (svc w) of
                 (Inr u, sv') \<Rightarrow>
                   w\<lparr>app := a1\<lparr>config := cfg\<lparr>apiKey := normalizedApiKey, provider := prov,
                                                model := mdl\<rparr>,
                                 status := ACTIVE,
                                 currentSpeakerId := firstSpeakerIfNone cfg (currentSpeakerId a)\<rparr>,
                     svc := sv'\<rparr>
               | (Inl e, sv') \<Rightarrow>
                   w\<lparr>app := addMessage st2 SYSTEM
                               (ascii ''Failed to initialize chat. ''
                                @ orElse (message e) (ascii ''Check API Key.'')) a1,
                     svc := sv'\<rparr>
        else if status a = PAUSED \<or> status a = COMPLETED then
          w\<lparr>app := a1\<lparr>status := ACTIVE,
                        currentSpeakerId := firstSpeakerIfNone cfg (currentSpeakerId a)\<rparr>\<rparr>
        else w\<lparr>app := a1\<rparr>)"

text \<open>Typing \<open>txt\<close> into the input field and submitting the form.\<close>

definition userSubmit ::
  "jsstring \<Rightarrow> js_error option \<Rightarrow> stamp \<Rightarrow> stamp \<Rightarrow> jsstring \<Rightarrow> world \<Rightarrow> world" where
  "userSubmit envKey sdk st1 st2 txt w =
     handleUserSubmit envKey sdk st1 st2 (w\<lparr>app := (app w)\<lparr>userInput := txt\<rparr>\<rparr>)"

subsection \<open>The automatic turn\<close>

text \<open>"The user's statement: " and "<name>'s statement: ".\<close>

definition userSaid :: jsstring where
  "userSaid = [0x30E6, 0x30FC, 0x30B6, 0x30FC, 0x306E, 0x767A, 0x8A00, 0x3A, 0x20]"

definition saidSuffix :: jsstring where
  "saidSuffix = [0x306E, 0x767A, 0x8A00, 0x3A, 0x20]"

definition lastContentMessage :: "Message list \<Rightarrow> Message option" where
  "lastContentMessage ms = findFirst (\<lambda>m. senderId m \<noteq> SYSTEM) (rev ms)"

text \<open>
  The block "Determine prompt input" of \<^verbatim>\<open>processTurn\<close>; \<open>None\<close> is its early
  \<^verbatim>\<open>return\<close>. With an empty roster \<^verbatim>\<open>config.agents[0].id\<close> raises a TypeError, which
  leaves the state as it is too; \<^verbatim>\<open>processTurn\<close> reaches this block with a non-empty
  roster only (lemma \<open>below_limit_roster\<close>).
\<close>

definition promptText :: "AppConfig \<Rightarrow> Message list \<Rightarrow> jsstring \<Rightarrow> jsstring option" where
  "promptText cfg ms speaker =
     (if length ms > 0 then
        (case lastContentMessage ms of
           Some m \<Rightarrow>
             if senderId m = USER then Some (userSaid @ msg_text m)
             else
               let senderName =
                     (case findFirst (\<lambda>ag. agent_id ag = senderId m) (agents cfg) of
                        Some ag \<Rightarrow> agent_name ag
                      | None \<Rightarrow> ascii ''Other'')
               in Some (senderName @ saidSuffix @ msg_text m)
         | None \<Rightarrow> Some (topic cfg))
      else
        (case agents cfg of
           [] \<Rightarrow> None
         | first # others \<Rightarrow> if speaker \<noteq> agent_id first then None else Some (topic cfg)))"

text \<open>"LLM API error: " and its default detail "Details unknown. Check the API key and
  the model."\<close>

definition llmError :: jsstring where
  "llmError = [0x4C, 0x4C, 0x4D, 0x20, 0x41, 0x50, 0x49, 0x30A8, 0x30E9, 0x30FC, 0x3A, 0x20]"

definition llmErrorDefault :: jsstring where
  "llmErrorDefault =
     [0x8A73, 0x7D30, 0x4E0D, 0x660E, 0x3067, 0x3059, 0x3002, 0x41, 0x50, 0x49, 0x30AD, 0x30FC,
      0x3068, 0x30E2, 0x30C7, 0x30EB, 0x3092, 0x78BA, 0x8A8D, 0x3057, 0x3066, 0x304F, 0x3060,
      0x3055, 0x3044, 0x3002]"

definition limitReached :: jsstring where
  "limitReached = ascii ''Conversation Limit Reached.''"

text \<open>The speaker after \<open>speaker\<close>:
  \<^verbatim>\<open>config.agents[(findIndex(a => a.id === currentSpeakerId) + 1) % config.agents.length].id\<close>.\<close>

definition nextSpeakerId :: "AgentConfig list \<Rightarrow> jsstring \<Rightarrow> jsstring" where
  "nextSpeakerId ags speaker =
     (let currentIndex = findIndex (\<lambda>ag. agent_id ag = speaker) ags;
          nextIndex = (currentIndex + 1) mod int (length ags)
      in agent_id (ags ! nat nextIndex))"

text \<open>
  One execution of \<^verbatim>\<open>processTurn\<close>, from the effect firing to the last update it queues,
  with \<open>r\<close> what the provider answers if it is asked, when no other handler runs in
  between. The same execution in its three steps, between which other handlers may run,
  is \<open>effectFires\<close>, \<open>timerFires\<close> and \<open>callSettles\<close> below.
\<close>

definition processTurn :: "reply \<Rightarrow> stamp \<Rightarrow> world \<Rightarrow> world" where
  "processTurn r st w =
     (let a = app w; cfg = config a in
      case currentSpeakerId a of
        None \<Rightarrow> w
      | Some speaker \<Rightarrow>
          if status a \<noteq> ACTIVE \<or> speaker = [] then w
          else if int (turnCount a) \<ge> maxTurns cfg * int (length (agents cfg)) then
            w\<lparr>app := addMessage st SYSTEM limitReached (a\<lparr>status := COMPLETED\<rparr>)\<rparr>
          else
            (case promptText cfg (messages a) speaker of
               None \<Rightarrow> w
             | Some prompt \<Rightarrow>
                (case generateResponse r speaker prompt (svc w) of
                   (Inr responseText, sv') \<Rightarrow>
                     w\<lparr>app := (addMessage st speaker responseText a)
                                \<lparr>turnCount := turnCount a + 1,
                                 currentSpeakerId := Some (nextSpeakerId (agents cfg) speaker)\<rparr>,
                       svc := sv',
                       generateCalls := generateCalls w @ [(speaker, prompt)]\<rparr>
                 | (Inl e, sv') \<Rightarrow>
                     w\<lparr>app := (addMessage st SYSTEM
                                  (llmError @ orElse (message e) llmErrorDefault) a)
                                \<lparr>status := ERROR\<rparr>,
                       svc := sv',
                       generateCalls := generateCalls w @ [(speaker, prompt)]\<rparr>)))"

subsection \<open>The summary\<close>

text \<open>The literals of \<^verbatim>\<open>buildLocalSummary\<close>: the bullet and the ellipsis, "Topic: ", "not set",
  "Highlights of the latest statements:" with its line break, "There are no recent
  statements."\<close>

definition bullet :: jsstring where "bullet = [0x2022, 0x20]"
definition ellipsis :: jsstring where "ellipsis = [0x2026]"
definition topicLabel :: jsstring where
  "topicLabel = [0x30C8, 0x30D4, 0x30C3, 0x30AF, 0x3A, 0x20]"
definition topicUnset :: jsstring where "topicUnset = [0x672A, 0x8A2D, 0x5B9A]"
definition highlights :: jsstring where
  "highlights =
     [0x76F4, 0x8FD1, 0x306E, 0x767A, 0x8A00, 0x30CF, 0x30A4, 0x30E9, 0x30A4, 0x30C8, 0x3A, 0xA]"
definition noRecent :: jsstring where
  "noRecent =
     [0x76F4, 0x8FD1, 0x306E, 0x767A, 0x8A00, 0x304C, 0x3042, 0x308A, 0x307E, 0x305B, 0x3093,
      0x3002]"

text \<open>One line of the local summary.\<close>

definition summaryBullet :: "Message \<Rightarrow> jsstring" where
  "summaryBullet m =
     (let nm = (if senderId m = USER then ascii ''User'' else senderId m);
          txt = take 120 (collapseSpaces (msg_text m))
      in bullet @ nm @ ascii '': '' @ txt
         @ (if length (msg_text m) > 120 then ellipsis else []))"

definition buildLocalSummary :: "Message list \<Rightarrow> jsstring \<Rightarrow> jsstring" where
  "buildLocalSummary ms tp =
     (let nonSystem = filter (\<lambda>m. senderId m \<noteq> SYSTEM) ms;
          lastFew = sliceLast 6 nonSystem;
          bullets = map summaryBullet lastFew
      in join [0xA]
           [topicLabel @ orElse tp topicUnset,
            if length bullets \<noteq> 0 then highlights @ join [0xA] bullets else noRecent])"

text \<open>"Writing up the minutes...", "Generating the summary failed: ", "an error of unknown
  reason", and the heading "Local summary:" between two blank lines and a line break.\<close>

definition summarizingNotice :: jsstring where
  "summarizingNotice =
     [0x8B70, 0x4E8B, 0x9332, 0x3092, 0x307E, 0x3068, 0x3081, 0x3066, 0x3044, 0x307E, 0x3059,
      0x2E, 0x2E, 0x2E]"

definition summaryFailed :: jsstring where
  "summaryFailed =
     [0x8981, 0x7D04, 0x751F, 0x6210, 0x306B, 0x5931, 0x6557, 0x3057, 0x307E, 0x3057, 0x305F,
      0x3A, 0x20]"

definition unknownReason :: jsstring where
  "unknownReason = [0x7406, 0x7531, 0x4E0D, 0x660E, 0x306E, 0x30A8, 0x30E9, 0x30FC]"

definition localSummaryHeading :: jsstring where
  "localSummaryHeading = [0xA, 0xA, 0x30ED, 0x30FC, 0x30AB, 0x30EB, 0x8981, 0x7D04, 0x3A, 0xA]"

text \<open>
  The effect "Generate meeting minutes once conversation ends", up to the call of
  \<^verbatim>\<open>summarize()\<close>, which starts \<^verbatim>\<open>generateMeetingSummary\<close> with the values of this render.
\<close>

definition summaryEffect :: "jsstring \<Rightarrow> stamp \<Rightarrow> world \<Rightarrow> world" where
  "summaryEffect envKey st w =
     (let a = app w; cfg = config a in
      if status a \<noteq> COMPLETED then w
      else if hasSummarizedRef a then w
      else if length (messages a) = 0 then w
      else
        let request = \<lparr>sr_messages = messages a, sr_topic = topic cfg,
                        sr_globalRules = globalRules cfg,
                        sr_apiKey = getEffectiveApiKey envKey cfg,
                        sr_provider = provider cfg, sr_model = model cfg\<rparr>
        in w\<lparr>app := addMessage st SYSTEM summarizingNotice
                       (a\<lparr>hasSummarizedRef := True, isSummarizing := True\<rparr>),
             summaryCalls := summaryCalls w @ [request],
             pendingSummary := Some request\<rparr>)"

text \<open>The promise of \<^verbatim>\<open>generateMeetingSummary\<close> settles: with the summary, or with an
  error, in which case the \<^verbatim>\<open>catch\<close> branch builds the local summary.\<close>

definition summarySettled :: "js_error + jsstring \<Rightarrow> stamp \<Rightarrow> world \<Rightarrow> world" where
  "summarySettled outcome st w =
     (case pendingSummary w of
        None \<Rightarrow> w
      | Some request \<Rightarrow>
          let txt =
                (case outcome of
                   Inr summary \<Rightarrow> summary
                 | Inl e \<Rightarrow>
                     summaryFailed @ orElse (message e) unknownReason @ localSummaryHeading
                     @ buildLocalSummary (sr_messages request) (sr_topic request))
          in w\<lparr>app := (addMessage st SUMMARY txt (app w))\<lparr>isSummarizing := False\<rparr>,
               pendingSummary := None\<rparr>)"

subsection \<open>The automatic turn, step by step\<close>

text \<open>
  The effect "Main Orchestration Loop" runs again whenever the speaker, the status, the
  transcript, the turn budget or the roster has changed. Its cleanup clears the pacing timer
  of the run before, if that has not fired; a call of \<^verbatim>\<open>generateResponse\<close> that is under
  way is not cancelled. Then \<^verbatim>\<open>processTurn\<close> runs up to its first \<^verbatim>\<open>await\<close>: the guards,
  the turn budget, the prompt, and the pacing timer is set.
\<close>

definition effectFires :: "stamp \<Rightarrow> world \<Rightarrow> world" where
  "effectFires st w =
     (let a = app w; cfg = config a; cleaned = w\<lparr>pendingTimer := None\<rparr> in
      case currentSpeakerId a of
        None \<Rightarrow> cleaned
      | Some speaker \<Rightarrow>
          if status a \<noteq> ACTIVE \<or> speaker = [] then cleaned
          else if int (turnCount a) \<ge> maxTurns cfg * int (length (agents cfg)) then
            cleaned\<lparr>app := addMessage st SYSTEM limitReached (a\<lparr>status := COMPLETED\<rparr>)\<rparr>
          else
            (case promptText cfg (messages a) speaker of
               None \<Rightarrow> cleaned
             | Some prompt \<Rightarrow>
                 cleaned\<lparr>pendingTimer :=
                   Some \<lparr>tc_speaker = speaker, tc_prompt = prompt, tc_agents = agents cfg\<rparr>\<rparr>))"

text \<open>
  The pacing timer fires and \<^verbatim>\<open>generateResponse\<close> is called with the speaker and the
  prompt of the closure. The service's part of the call, its look at the session and its
  update of the session, is taken as a whole at this moment, with \<open>r\<close> what the
  provider will answer; the result waits until the call settles.
\<close>

definition timerFires :: "reply \<Rightarrow> world \<Rightarrow> world" where
  "timerFires r w =
     (case pendingTimer w of
        None \<Rightarrow> w
      | Some c \<Rightarrow>
          (case generateResponse r (tc_speaker c) (tc_prompt c) (svc w) of
             (res, sv') \<Rightarrow>
               w\<lparr>svc := sv',
                 generateCalls := generateCalls w @ [(tc_speaker c, tc_prompt c)],
                 pendingTimer := None,
                 inflight := inflight w @ [(c, res)]\<rparr>))"

text \<open>
  The call at position \<open>i\<close> of those under way settles, and \<^verbatim>\<open>processTurn\<close> queues its
  updates: the response, the turn count and the next speaker, computed from the speaker
  and the roster of the closure; or the error message and the status \<^verbatim>\<open>ERROR\<close>.
\<close>

definition callSettles :: "nat \<Rightarrow> stamp \<Rightarrow> world \<Rightarrow> world" where
  "callSettles i st w =
     (if i < length (inflight w) then
        (case inflight w ! i of
           (c, res) \<Rightarrow>
             let a = app w;
                 rest = w\<lparr>inflight := take i (inflight w) @ drop (Suc i) (inflight w)\<rparr>
             in (case res of
                   Inr responseText \<Rightarrow>
                     rest\<lparr>app := (addMessage st (tc_speaker c) responseText a)
                                   \<lparr>turnCount := turnCount a + 1,
                                    currentSpeakerId :=
                                      Some (nextSpeakerId (tc_agents c) (tc_speaker c))\<rparr>\<rparr>
                 | Inl e \<Rightarrow>
                     rest\<lparr>app := (addMessage st SYSTEM
                                     (llmError @ orElse (message e) llmErrorDefault) a)
                                   \<lparr>status := ERROR\<rparr>\<rparr>))
      else w)"

subsection \<open>The configuration panel (components/ConfigurationPanel.tsx)\<close>

text \<open>Every input of the panel is disabled while the status is \<^verbatim>\<open>ACTIVE\<close>; otherwise its
  handler updates the configuration.\<close>

definition whileNotRunning :: "(AppConfig \<Rightarrow> AppConfig) \<Rightarrow> world \<Rightarrow> world" where
  "whileNotRunning f w =
     (if status (app w) = ACTIVE then w
      else w\<lparr>app := (app w)\<lparr>config := f (config (app w))\<rparr>\<rparr>)"

text \<open>The model ids of \<^verbatim>\<open>PROVIDER_MODEL_OPTIONS\<close>.\<close>

fun modelIds :: "LLMProvider \<Rightarrow> jsstring list" where
  "modelIds gemini =
     [ascii ''gemini-2.5-flash'', ascii ''gemini-2.0-flash'',
      ascii ''gemini-2.0-flash-lite-preview-02-04'', ascii ''gemini-1.5-pro'',
      ascii ''gemini-1.5-flash'']"
| "modelIds openai = [ascii ''gpt-4o-mini'', ascii ''gpt-4o'']"
| "modelIds groq = [ascii ''llama-3.3-70b-versatile'', ascii ''mixtral-8x7b-32768'']"
| "modelIds perplexity =
     [ascii ''llama-3.1-sonar-large-128k-chat'', ascii ''llama-3.1-70b-instruct'']"
| "modelIds openrouter = [ascii ''gpt-4o-mini'', ascii ''deepseek-chat'']"
| "modelIds openai_compatible = [ascii ''gpt-4o-mini'', ascii ''gpt-3.5-turbo'']"

definition handleApiKeyChange :: "jsstring \<Rightarrow> AppConfig \<Rightarrow> AppConfig" where
  "handleApiKeyChange key prev =
     (let detected = detectProviderFromApiKey key;
          availableModels = modelIds detected;
          nextModel =
            orElse (case findFirst (\<lambda>m. m = model prev) availableModels of
                      Some m \<Rightarrow> m | None \<Rightarrow> [])
              (orElse (case availableModels of [] \<Rightarrow> [] | m # ms \<Rightarrow> m)
                 (getDefaultModelForProvider detected))
      in prev\<lparr>apiKey := key, provider := detected, model := nextModel\<rparr>)"

text \<open>The literals of a new agent: the word for "agent" with a space, and the prompt "You
  are an AI assistant with a personality of your own."\<close>

definition agentWord :: jsstring where
  "agentWord = [0x30A8, 0x30FC, 0x30B8, 0x30A7, 0x30F3, 0x30C8, 0x20]"

definition defaultPrompt :: jsstring where
  "defaultPrompt =
     [0x3042, 0x306A, 0x305F, 0x306F, 0x500B, 0x6027, 0x7684, 0x306A, 0x41, 0x49, 0x30A2, 0x30B7,
      0x30B9, 0x30BF, 0x30F3, 0x30C8, 0x3067, 0x3059, 0x3002]"

definition COLOR_PALETTE :: "jsstring list" where
  "COLOR_PALETTE =
     [ascii ''cyan'', ascii ''pink'', ascii ''emerald'', ascii ''amber'', ascii ''violet'',
      ascii ''rose'']"

text \<open>The agent pushed at index \<open>i\<close>; \<open>clock i\<close> is the value of \<^verbatim>\<open>Date.now()\<close> then.\<close>

definition newAgent :: "(nat \<Rightarrow> nat) \<Rightarrow> nat \<Rightarrow> AgentConfig" where
  "newAgent clock i =
     \<lparr>agent_id = decimal (clock i) @ ascii ''-'' @ decimal i,
      agent_name = agentWord @ decimal (i + 1),
      systemPrompt = defaultPrompt,
      color = COLOR_PALETTE ! (i mod length COLOR_PALETTE),
      avatarEmoji = []\<rparr>"

definition handleAgentCountChange :: "nat \<Rightarrow> (nat \<Rightarrow> nat) \<Rightarrow> AppConfig \<Rightarrow> AppConfig" where
  "handleAgentCountChange count clock cfg =
     (let currentCount = length (agents cfg) in
      if count < 2 \<or> count > 6 then cfg
      else if count > currentCount then
        cfg\<lparr>agents := agents cfg @ map (newAgent clock) [currentCount ..< count]\<rparr>
      else if count < currentCount then cfg\<lparr>agents := take count (agents cfg)\<rparr>
      else cfg)"

text \<open>The panel calls \<^verbatim>\<open>handleAgentChange\<close> for the name and for the prompt of an agent
  it displays, so with an index inside the roster; an index outside it, which the panel
  does not produce, is left without effect here.\<close>

datatype agent_field = NameField | SystemPromptField

definition handleAgentChange ::
  "nat \<Rightarrow> agent_field \<Rightarrow> jsstring \<Rightarrow> AppConfig \<Rightarrow> AppConfig" where
  "handleAgentChange index field v cfg =
     (if index < length (agents cfg) then
        cfg\<lparr>agents := (agents cfg)
               [index := (case field of
                            NameField \<Rightarrow> (agents cfg ! index)\<lparr>agent_name := v\<rparr>
                          | SystemPromptField \<Rightarrow> (agents cfg ! index)\<lparr>systemPrompt := v\<rparr>)]\<rparr>
      else cfg)"

text \<open>\<^verbatim>\<open>maxTurns: parseInt(e.target.value) || 1\<close>; \<open>None\<close> is \<^verbatim>\<open>NaN\<close>.\<close>

definition parsedMaxTurns :: "int option \<Rightarrow> int" where
  "parsedMaxTurns parsed = (case parsed of None \<Rightarrow> 1 | Some n \<Rightarrow> if n = 0 then 1 else n)"

text \<open>
  \<^verbatim>\<open>handlePresetChange\<close> of the component, with the preset that \<^verbatim>\<open>getPresetById\<close> finds in
  \<^verbatim>\<open>SCENARIO_PRESETS\<close>: its roster, topic, turn budget and rules. The handler has no
  condition on the status.
\<close>

record preset =
  p_agents :: "AgentConfig list"
  p_topic :: jsstring
  p_maxTurns :: int
  p_globalRules :: jsstring

definition handlePresetChange :: "jsstring \<Rightarrow> preset \<Rightarrow> world \<Rightarrow> world" where
  "handlePresetChange envKey p w =
     (let cfg = config (app w);
          key = trim (orElse (apiKey cfg) (orElse envKey []));
          prov = detectProviderFromApiKey key;
          mdl = getDefaultModelForProvider prov
      in w\<lparr>app := resetConversationState
                    ((app w)\<lparr>config := cfg\<lparr>topic := p_topic p, maxTurns := p_maxTurns p,
                                            globalRules := p_globalRules p,
                                            agents := p_agents p,
                                            provider := prov, model := mdl\<rparr>\<rparr>)\<rparr>)"

subsection \<open>Runs\<close>

text \<open>
  What can happen: the four intents of the user; the effect of the automatic turn running,
  its timer firing, one of its calls settling; the summary effect running and the summary
  call settling; an edit in the configuration panel; a change of preset. Events may follow
  each other in any order: an effect need not run after every change of the state, and a
  handler may run in a status in which the page does not show its button. The edits of the
  panel are the exception, whose inputs are disabled while the status is \<^verbatim>\<open>ACTIVE\<close>.
\<close>

datatype event =
  Start "js_error option" stamp
| Stop stamp
| Reset
| UserSubmit jsstring "js_error option" stamp stamp
| EffectFires stamp
| TimerFires reply
| CallSettles nat stamp
| SummaryEffect stamp
| SummarySettled "js_error + jsstring" stamp
| ApiKeyChange jsstring
| ModelChange jsstring
| AgentCountChange nat "nat \<Rightarrow> nat"
| AgentChange nat agent_field jsstring
| RulesChange jsstring
| TopicChange jsstring
| MaxTurnsChange "int option"
| PresetChange preset

fun step :: "jsstring \<Rightarrow> event \<Rightarrow> world \<Rightarrow> world" where
  "step envKey (Start sdk st) w = handleStart envKey sdk st w"
| "step envKey (Stop st) w = handleStop st w"
| "step envKey Reset w = handleReset w"
| "step envKey (UserSubmit txt sdk st1 st2) w = userSubmit envKey sdk st1 st2 txt w"
| "step envKey (EffectFires st) w = effectFires st w"
| "step envKey (TimerFires r) w = timerFires r w"
| "step envKey (CallSettles i st) w = callSettles i st w"
| "step envKey (SummaryEffect st) w = summaryEffect envKey st w"
| "step envKey (SummarySettled outcome st) w = summarySettled outcome st w"
| "step envKey (ApiKeyChange key) w = whileNotRunning (handleApiKeyChange key) w"
| "step envKey (ModelChange m) w = whileNotRunning (\<lambda>prev. prev\<lparr>model := m\<rparr>) w"
| "step envKey (AgentCountChange count clock) w =
     whileNotRunning (handleAgentCountChange count clock) w"
| "step envKey (AgentChange index field v) w =
     whileNotRunning (handleAgentChange index field v) w"
| "step envKey (RulesChange rules) w = whileNotRunning (\<lambda>prev. prev\<lparr>globalRules := rules\<rparr>) w"
| "step envKey (TopicChange tp) w = whileNotRunning (\<lambda>prev. prev\<lparr>topic := tp\<rparr>) w"
| "step envKey (MaxTurnsChange parsed) w =
     whileNotRunning (\<lambda>prev. prev\<lparr>maxTurns := parsedMaxTurns parsed\<rparr>) w"
| "step envKey (PresetChange p) w = handlePresetChange envKey p w"

fun run :: "jsstring \<Rightarrow> event list \<Rightarrow> world \<Rightarrow> world" where
  "run envKey [] w = w"
| "run envKey (e # es) w = run envKey es (step envKey e w)"

text \<open>The events that start a conversation afresh, and those that edit the turn budget.\<close>

fun restarts :: "event \<Rightarrow> bool" where
  "restarts (Start sdk st) = True"
| "restarts Reset = True"
| "restarts (PresetChange p) = True"
| "restarts e = False"


text \<open>The three steps of a turn with nothing in between.\<close>

definition turnEvents :: "reply \<Rightarrow> stamp \<Rightarrow> event list" where
  "turnEvents r st = [EffectFires st, TimerFires r, CallSettles 0 st]"

text \<open>The state of the freshly mounted component.\<close>

definition initialWorld :: "AppConfig \<Rightarrow> world" where
  "initialWorld cfg =
     \<lparr>app = \<lparr>config = cfg, messages = [], status = IDLE, turnCount = 0,
             currentSpeakerId = None, userInput = [], isSummarizing = False,
             isConfigOpen = False, hasSummarizedRef = False\<rparr>,
      svc = initialService, generateCalls = [], summaryCalls = [], pendingSummary = None,
      pendingTimer = None, inflight = []\<rparr>"

section \<open>Notions used in the properties\<close>











text \<open>The automatic turn gets past its guards: the status is \<^verbatim>\<open>ACTIVE\<close>, a speaker is
  set, and the turn budget is not used up.\<close>

definition turnRuns :: "world \<Rightarrow> jsstring \<Rightarrow> bool" where
  "turnRuns w speaker \<longleftrightarrow>
     status (app w) = ACTIVE \<and> currentSpeakerId (app w) = Some speaker \<and> speaker \<noteq> []
     \<and> int (turnCount (app w))
          < maxTurns (config (app w)) * int (length (agents (config (app w))))"

text \<open>The label of a message's sender in a prompt: the word for "user" for the user,
  else the display name of the agent with that id, \<^verbatim>\<open>Other\<close> when no agent has it.\<close>

definition speakerLabel :: "AppConfig \<Rightarrow> Message \<Rightarrow> jsstring" where
  "speakerLabel cfg m =
     (if senderId m = USER then [0x30E6, 0x30FC, 0x30B6, 0x30FC]
      else (case findFirst (\<lambda>ag. agent_id ag = senderId m) (agents cfg) of
              Some ag \<Rightarrow> agent_name ag
            | None \<Rightarrow> ascii ''Other''))"

text \<open>The key that \<^verbatim>\<open>handleStart\<close> resolves, and its call of \<^verbatim>\<open>initializeChats\<close>.\<close>

definition startKey :: "jsstring \<Rightarrow> world \<Rightarrow> jsstring" where
  "startKey envKey w = getEffectiveApiKey envKey (config (app w))"

definition startInitialization ::
  "jsstring \<Rightarrow> js_error option \<Rightarrow> world \<Rightarrow> (js_error + unit) \<times> service" where
  "startInitialization envKey sdk w =
     initializeChats sdk (startKey envKey w)
       (getDefaultModelForProvider (detectProviderFromApiKey (startKey envKey w)))
       (agents (config (app w))) (globalRules (config (app w))) (svc w)"



text \<open>
  No agent of a roster has the reserved sender id \<^verbatim>\<open>SYSTEM\<close>. The rosters of
  \<^verbatim>\<open>SCENARIO_PRESETS\<close> are such (their ids are \<^verbatim>\<open>A\<close> to \<^verbatim>\<open>F\<close>, \<^verbatim>\<open>PD-A\<close> to \<^verbatim>\<open>PD-E\<close>,
  \<^verbatim>\<open>L-A\<close> to \<^verbatim>\<open>L-D\<close> and \<^verbatim>\<open>U-A\<close> to \<^verbatim>\<open>U-D\<close>), and with them the roster the component
  is mounted with; the panel edits names and prompts, not ids, and the ids of the agents
  it adds contain a hyphen.
\<close>

definition noSystemId :: "AgentConfig list \<Rightarrow> bool" where
  "noSystemId ags \<longleftrightarrow> (\<forall>ag \<in> set ags. agent_id ag \<noteq> SYSTEM)"

fun fromTable :: "event \<Rightarrow> bool" where
  "fromTable (PresetChange p) = noSystemId (p_agents p)"
| "fromTable e = True"

text \<open>The states that the freshly mounted component reaches by the events of a run, a
  preset being one of the table.\<close>

inductive reachable :: "jsstring \<Rightarrow> world \<Rightarrow> bool" for envKey :: jsstring where
  initial: "noSystemId (agents cfg) \<Longrightarrow> reachable envKey (initialWorld cfg)"
| after: "reachable envKey w \<Longrightarrow> fromTable e \<Longrightarrow> reachable envKey (step envKey e w)"

text \<open>
  What the states of a run have in common. The closure of a turn under way has a speaker
  other than \<^verbatim>\<open>SYSTEM\<close> and a roster that is not empty and has no agent of that id; so do
  the roster and the speaker of the state; and an active conversation whose transcript has
  \<^verbatim>\<open>SYSTEM\<close> messages only is at its first speaker.
\<close>

definition closureSound :: "turn_closure \<Rightarrow> bool" where
  "closureSound c \<longleftrightarrow>
     tc_speaker c \<noteq> SYSTEM \<and> tc_agents c \<noteq> [] \<and> noSystemId (tc_agents c)"

definition coherent :: "world \<Rightarrow> bool" where
  "coherent w \<longleftrightarrow>
     noSystemId (agents (config (app w)))
     \<and> currentSpeakerId (app w) \<noteq> Some SYSTEM
     \<and> (\<forall>c. pendingTimer w = Some c \<longrightarrow> closureSound c)
     \<and> (\<forall>p \<in> set (inflight w). closureSound (fst p))
     \<and> (status (app w) = ACTIVE \<and> agents (config (app w)) \<noteq> []
          \<and> (\<forall>m \<in> set (messages (app w)). senderId m = SYSTEM)
          \<and> speakerSet (currentSpeakerId (app w))
        \<longrightarrow> currentSpeakerId (app w) = Some (agent_id (hd (agents (config (app w))))))"




text \<open>The messages of a transcript that are not from \<^verbatim>\<open>SYSTEM\<close>.\<close>

definition nonSystem :: "Message list \<Rightarrow> Message list" where
  "nonSystem ms = filter (\<lambda>m. senderId m \<noteq> SYSTEM) ms"

text \<open>The summary call that the summary effect makes in a state.\<close>

definition summaryRequest :: "jsstring \<Rightarrow> world \<Rightarrow> summary_request" where
  "summaryRequest envKey w =
     \<lparr>sr_messages = messages (app w), sr_topic = topic (config (app w)),
      sr_globalRules = globalRules (config (app w)),
      sr_apiKey = getEffectiveApiKey envKey (config (app w)),
      sr_provider = provider (config (app w)), sr_model = model (config (app w))\<rparr>"

subsection \<open>Example inputs\<close>

text \<open>Two agents, and a store in which the OpenAI-style provider is active and each of
  them has a session.\<close>

definition agentA :: AgentConfig where
  "agentA = \<lparr>agent_id = ascii ''A'', agent_name = ascii ''Ann'', systemPrompt = ascii ''p'',
             color = ascii ''cyan'', avatarEmoji = []\<rparr>"

definition agentB :: AgentConfig where
  "agentB = \<lparr>agent_id = ascii ''B'', agent_name = ascii ''Bob'', systemPrompt = ascii ''q'',
             color = ascii ''pink'', avatarEmoji = []\<rparr>"

definition openaiService :: service where
  "openaiService =
     \<lparr>chatSessions = Map.empty,
      openAISessions = [ascii ''A'' \<mapsto> [\<lparr>role = RoleSystem, content = ascii ''p''\<rparr>],
                        ascii ''B'' \<mapsto> [\<lparr>role = RoleSystem, content = ascii ''q''\<rparr>]],
      activeProvider = openai, activeModel = ascii ''gpt-4o-mini'',
      activeApiKey = ascii ''sk-1''\<rparr>"




text \<open>A response with a text.\<close>

definition okReply :: reply where
  "okReply = \<lparr>sendMessage = SendResolved (Some (ascii ''hello'')),
              fetch = BodyJson (ContentString (ascii ''hello''))\<rparr>"

text \<open>A configuration with the two agents and a budget of one turn for each; stamps for
  new messages.\<close>

definition exampleConfig :: AppConfig where
  "exampleConfig =
     \<lparr>apiKey = ascii ''sk-1'', provider = openai, model = ascii ''gpt-4o-mini'',
      agents = [agentA, agentB], topic = ascii ''tea'', maxTurns = 1, globalRules = []\<rparr>"

definition stamp1 :: stamp where "stamp1 = (ascii ''m1'', 1)"
definition stamp2 :: stamp where "stamp2 = (ascii ''m2'', 2)"
definition stamp3 :: stamp where "stamp3 = (ascii ''m3'', 3)"
definition stamp4 :: stamp where "stamp4 = (ascii ''m4'', 4)"

text \<open>The announcement of a start and a message of the user.\<close>

definition startedMessage :: Message where
  "startedMessage =
     \<lparr>msg_id = ascii ''m1'', senderId = SYSTEM, msg_text = announcement (ascii ''tea''),
      timestamp = 1\<rparr>"

definition userHello :: Message where
  "userHello = \<lparr>msg_id = ascii ''m2'', senderId = USER, msg_text = ascii ''hi'', timestamp = 2\<rparr>"



text \<open>A conversation of the two example agents that has ended and has not been summarized.\<close>

definition completedWorld :: world where
  "completedWorld =
     \<lparr>app = \<lparr>config = exampleConfig, messages = [startedMessage, userHello],
             status = COMPLETED, turnCount = 2,
             currentSpeakerId = Some (ascii ''A''), userInput = [], isSummarizing = False,
             isConfigOpen = False, hasSummarizedRef = False\<rparr>,
      svc = openaiService, generateCalls = [], summaryCalls = [], pendingSummary = None,
      pendingTimer = None, inflight = []\<rparr>"


definition startedWorld :: world where
  "startedWorld = handleStart [] None stamp1 (initialWorld exampleConfig)"

definition endedWorld :: world where
  "endedWorld =
     run [] (turnEvents okReply stamp2 @ turnEvents okReply stamp3 @ [EffectFires stamp4])
       startedWorld"

definition laterEvents :: "event list" where
  "laterEvents =
     [SummaryEffect stamp2, SummarySettled (Inr (ascii ''minutes'')) stamp3,
      MaxTurnsChange (Some 2), UserSubmit (ascii ''more'') None stamp1 stamp2,
      EffectFires stamp3, TimerFires okReply, SummaryEffect stamp4, CallSettles 0 stamp4,
      EffectFires stamp1, Stop stamp2, SummaryEffect stamp3]"


text \<open>The conversation of the example agents after its start and a message of the user,
  written while the pacing timer of the first turn is pending.\<close>

definition greetedWorld :: world where
  "greetedWorld =
     run [] [Start None stamp1, EffectFires stamp2, UserSubmit (ascii ''hi'') None stamp2 stamp3]
       (initialWorld exampleConfig)"




section \<open>Properties of the response generator and the session store\<close>







text \<open>The copy of \<^verbatim>\<open>initializeChats\<close> that trims the key rejects every key that is blank
  once trimmed and leaves the module variables alone; a key that is not blank passes the
  check, and the call then fails only if the vendor's client cannot be constructed.\<close>

lemma initializeChats_blank_key:
  "trim key = [] \<Longrightarrow> initializeChats sdk key m ags rules sv = (Inl apiKeyRequired, sv)"
  by (simp add: initializeChats_def)

lemma initializeChats_key_accepted:
  "trim key \<noteq> [] \<Longrightarrow>
   fst (initializeChats sdk key m ags rules sv) =
     (if detectProviderFromApiKey (trim key) = gemini
      then (case sdk of Some e \<Rightarrow> Inl e | None \<Rightarrow> Inr ()) else Inr ())"
  by (simp add: initializeChats_def Let_def split: option.splits)

text \<open>
  C4 at the other copy of \<^verbatim>\<open>initializeChats\<close>, which tests the key untrimmed. A key of
  three spaces is empty after trimming, yet the call returns normally: it replaces the
  active provider, model and key, discards the session that existed and creates a new one.
\<close>

theorem initializeChats_untrimmed_blank_key:
  "trim (ascii ''   '') = []
   \<and> initializeChats_untrimmed None (ascii ''   '') [] [agentA] [] openaiService =
       (Inr (),
        \<lparr>chatSessions = [ascii ''A'' \<mapsto>
            \<lparr>chat_model = ascii ''gemini-2.5-flash'',
             systemInstruction = combinedSystemInstruction agentA []\<rparr>],
         openAISessions = Map.empty, activeProvider = gemini,
         activeModel = ascii ''gemini-2.5-flash'', activeApiKey = ascii ''   ''\<rparr>)"
  by (simp add: initializeChats_untrimmed_def detectProviderFromApiKey_def trim_def ascii_def
      isWhiteSpace_def orElse_def openaiService_def agentA_def Let_def)

lemma initializeChats_client_built:
  "trim key \<noteq> [] \<Longrightarrow> fst (initializeChats None key m ags rules sv) = Inr ()"
  by (simp add: initializeChats_key_accepted)

section \<open>Properties of the orchestrator\<close>

subsection \<open>The turn in its steps, and runs\<close>

text \<open>With no timer pending and no call under way, the three steps of a turn, one after
  the other, are one execution of \<^verbatim>\<open>processTurn\<close>.\<close>

lemma turn_phases:
  assumes "pendingTimer w = None" "inflight w = []"
  shows "callSettles 0 st (timerFires r (effectFires st w)) = processTurn r st w"
  using assms
  by (cases w)
     (auto simp: callSettles_def timerFires_def effectFires_def processTurn_def Let_def
      split: option.splits prod.splits sum.splits)

lemma reachable_run:
  "reachable envKey w \<Longrightarrow> \<forall>e \<in> set es. fromTable e \<Longrightarrow> reachable envKey (run envKey es w)"
  by (induction es arbitrary: w) (auto intro: reachable.after)

lemma noSystemId_example: "noSystemId (agents exampleConfig)"
  by (simp add: noSystemId_def exampleConfig_def agentA_def agentB_def SYSTEM_def ascii_def)

subsection \<open>What each handler leaves as it is\<close>

lemma handleStart_frame:
  "agents (config (app (handleStart envKey sdk st w))) = agents (config (app w))"
  "maxTurns (config (app (handleStart envKey sdk st w))) = maxTurns (config (app w))"
  "turnCount (app (handleStart envKey sdk st w)) = 0
     \<or> turnCount (app (handleStart envKey sdk st w)) = turnCount (app w)"
  "generateCalls (handleStart envKey sdk st w) = generateCalls w"
  "summaryCalls (handleStart envKey sdk st w) = summaryCalls w"
  "pendingTimer (handleStart envKey sdk st w) = pendingTimer w"
  "inflight (handleStart envKey sdk st w) = inflight w"
  by (auto simp: handleStart_def Let_def addMessage_def split: prod.splits sum.splits)

lemma handleStop_frame:
  "config (app (handleStop st w)) = config (app w)"
  "turnCount (app (handleStop st w)) = turnCount (app w)"
  "generateCalls (handleStop st w) = generateCalls w"
  "summaryCalls (handleStop st w) = summaryCalls w"
  "hasSummarizedRef (app (handleStop st w)) = hasSummarizedRef (app w)"
  "pendingTimer (handleStop st w) = pendingTimer w"
  "inflight (handleStop st w) = inflight w"
  by (simp_all add: handleStop_def addMessage_def)

lemma handleReset_frame:
  "config (app (handleReset w)) = config (app w)"
  "turnCount (app (handleReset w)) = 0"
  "generateCalls (handleReset w) = generateCalls w"
  "summaryCalls (handleReset w) = summaryCalls w"
  "pendingTimer (handleReset w) = pendingTimer w"
  "inflight (handleReset w) = inflight w"
  by (simp_all add: handleReset_def resetConversationState_def)

lemma userSubmit_frame:
  "agents (config (app (userSubmit envKey sdk st1 st2 txt w))) = agents (config (app w))"
  "maxTurns (config (app (userSubmit envKey sdk st1 st2 txt w))) = maxTurns (config (app w))"
  "turnCount (app (userSubmit envKey sdk st1 st2 txt w)) = turnCount (app w)"
  "generateCalls (userSubmit envKey sdk st1 st2 txt w) = generateCalls w"
  "summaryCalls (userSubmit envKey sdk st1 st2 txt w) = summaryCalls w"
  "hasSummarizedRef (app (userSubmit envKey sdk st1 st2 txt w)) = hasSummarizedRef (app w)"
  "pendingTimer (userSubmit envKey sdk st1 st2 txt w) = pendingTimer w"
  "inflight (userSubmit envKey sdk st1 st2 txt w) = inflight w"
  by (auto simp: userSubmit_def handleUserSubmit_def Let_def addMessage_def
      split: prod.splits sum.splits)



lemma effectFires_frame:
  "config (app (effectFires st w)) = config (app w)"
  "turnCount (app (effectFires st w)) = turnCount (app w)"
  "currentSpeakerId (app (effectFires st w)) = currentSpeakerId (app w)"
  "generateCalls (effectFires st w) = generateCalls w"
  "summaryCalls (effectFires st w) = summaryCalls w"
  "hasSummarizedRef (app (effectFires st w)) = hasSummarizedRef (app w)"
  "inflight (effectFires st w) = inflight w"
  by (auto simp: effectFires_def Let_def addMessage_def split: option.splits)


lemma timerFires_frame:
  "app (timerFires r w) = app w"
  "summaryCalls (timerFires r w) = summaryCalls w"
  "pendingTimer (timerFires r w) = None"
  by (auto simp: timerFires_def split: option.splits prod.splits)


lemma callSettles_frame:
  "config (app (callSettles i st w)) = config (app w)"
  "turnCount (app w) \<le> turnCount (app (callSettles i st w))"
  "generateCalls (callSettles i st w) = generateCalls w"
  "summaryCalls (callSettles i st w) = summaryCalls w"
  "hasSummarizedRef (app (callSettles i st w)) = hasSummarizedRef (app w)"
  "pendingTimer (callSettles i st w) = pendingTimer w"
  by (auto simp: callSettles_def Let_def addMessage_def split: prod.splits sum.splits)


lemma summarySettled_frame:
  "config (app (summarySettled outcome st w)) = config (app w)"
  "turnCount (app (summarySettled outcome st w)) = turnCount (app w)"
  "status (app (summarySettled outcome st w)) = status (app w)"
  "currentSpeakerId (app (summarySettled outcome st w)) = currentSpeakerId (app w)"
  "generateCalls (summarySettled outcome st w) = generateCalls w"
  "summaryCalls (summarySettled outcome st w) = summaryCalls w"
  "hasSummarizedRef (app (summarySettled outcome st w)) = hasSummarizedRef (app w)"
  "pendingTimer (summarySettled outcome st w) = pendingTimer w"
  "inflight (summarySettled outcome st w) = inflight w"
  by (simp_all add: summarySettled_def Let_def addMessage_def split: option.splits)

lemma whileNotRunning_frame:
  "messages (app (whileNotRunning f w)) = messages (app w)"
  "status (app (whileNotRunning f w)) = status (app w)"
  "turnCount (app (whileNotRunning f w)) = turnCount (app w)"
  "currentSpeakerId (app (whileNotRunning f w)) = currentSpeakerId (app w)"
  "hasSummarizedRef (app (whileNotRunning f w)) = hasSummarizedRef (app w)"
  "generateCalls (whileNotRunning f w) = generateCalls w"
  "summaryCalls (whileNotRunning f w) = summaryCalls w"
  "pendingTimer (whileNotRunning f w) = pendingTimer w"
  "inflight (whileNotRunning f w) = inflight w"
  by (simp_all add: whileNotRunning_def)

lemma whileNotRunning_config:
  "config (app (whileNotRunning f w))
     = (if status (app w) = ACTIVE then config (app w) else f (config (app w)))"
  by (simp add: whileNotRunning_def)

lemma handlePresetChange_frame:
  "generateCalls (handlePresetChange envKey p w) = generateCalls w"
  "summaryCalls (handlePresetChange envKey p w) = summaryCalls w"
  "pendingTimer (handlePresetChange envKey p w) = pendingTimer w"
  "inflight (handlePresetChange envKey p w) = inflight w"
  "status (app (handlePresetChange envKey p w)) = IDLE"
  "agents (config (app (handlePresetChange envKey p w))) = p_agents p"
  "currentSpeakerId (app (handlePresetChange envKey p w)) = None"
  by (simp_all add: handlePresetChange_def resetConversationState_def Let_def)


lemma handleApiKeyChange_frame:
  "agents (handleApiKeyChange key cfg) = agents cfg"
  "maxTurns (handleApiKeyChange key cfg) = maxTurns cfg"
  by (simp_all add: handleApiKeyChange_def Let_def)


subsection \<open>The prompt of a turn\<close>

lemma findFirst_None: "findFirst p xs = None \<longleftrightarrow> (\<forall>x \<in> set xs. \<not> p x)"
  by (induction xs) auto

lemma lastContent_Some:
  "ms = pre @ m # post \<Longrightarrow> senderId m \<noteq> SYSTEM \<Longrightarrow> \<forall>x \<in> set post. senderId x = SYSTEM
   \<Longrightarrow> lastContentMessage ms = Some m"
  unfolding lastContentMessage_def
  by (induction post arbitrary: ms rule: rev_induct) auto

lemma lastContent_None:
  "\<forall>x \<in> set ms. senderId x = SYSTEM \<Longrightarrow> lastContentMessage ms = None"
  by (simp add: lastContentMessage_def findFirst_None)

lemma below_limit_roster:
  "int n < m * int (length ags) \<Longrightarrow> ags \<noteq> []"
  by auto

lemma promptText_last:
  assumes "ms = pre @ m # post" "senderId m \<noteq> SYSTEM" "\<forall>x \<in> set post. senderId x = SYSTEM"
  shows "promptText cfg ms speaker = Some (speakerLabel cfg m @ saidSuffix @ msg_text m)"
  using lastContent_Some [OF assms] assms(1)
  by (simp add: promptText_def speakerLabel_def userSaid_def saidSuffix_def Let_def
      split: option.splits)

lemma promptText_topic:
  assumes "\<forall>x \<in> set ms. senderId x = SYSTEM" "ags = agents cfg" "ags \<noteq> []"
  shows "promptText cfg ms speaker =
      (if ms = [] \<and> speaker \<noteq> agent_id (hd ags) then None else Some (topic cfg))"
  using lastContent_None [OF assms(1)] assms(2,3)
  by (cases "agents cfg") (auto simp add: promptText_def)

lemma processTurn_prompt:
  assumes "turnRuns w speaker" "promptText (config (app w)) (messages (app w)) speaker = Some p"
  shows "generateCalls (processTurn r st w) = generateCalls w @ [(speaker, p)]"
  using assms
  by (simp add: processTurn_def turnRuns_def Let_def split: prod.splits sum.splits)

lemma processTurn_skip:
  assumes "turnRuns w speaker" "promptText (config (app w)) (messages (app w)) speaker = None"
  shows "processTurn r st w = w"
  using assms
  by (simp add: processTurn_def turnRuns_def Let_def split: prod.splits sum.splits)


subsection \<open>The states of a run\<close>

text \<open>Every state of a run is coherent: by rule induction, each handler keeping it so.\<close>

lemma USER_not_SYSTEM: "USER \<noteq> SYSTEM"
  by (simp add: USER_def SYSTEM_def ascii_def)

lemma SUMMARY_not_SYSTEM: "SUMMARY \<noteq> SYSTEM"
  by (simp add: SUMMARY_def SYSTEM_def ascii_def)

lemma newAgent_id: "agent_id (newAgent clock i) \<noteq> SYSTEM"
proof
  assume "agent_id (newAgent clock i) = SYSTEM"
  moreover have "(0x2D :: 16 word) \<in> set (agent_id (newAgent clock i))"
    by (simp add: newAgent_def ascii_def del: decimal.simps)
  moreover have "(0x2D :: 16 word) \<notin> set SYSTEM"
    by (simp add: SYSTEM_def ascii_def)
  ultimately show False by simp
qed

lemma nextSpeakerId_in:
  assumes "ags \<noteq> []"
  shows "nextSpeakerId ags s \<in> agent_id ` set ags"
proof -
  let ?k = "(findIndex (\<lambda>ag. agent_id ag = s) ags + 1) mod int (length ags)"
  have n: "0 < int (length ags)" using assms by simp
  have "0 \<le> ?k" "?k < int (length ags)"
    using n by (simp_all del: of_nat_0_less_iff)
  then have "nat ?k < length ags" by simp
  then have "ags ! nat ?k \<in> set ags" by (rule nth_mem)
  then show ?thesis by (simp add: nextSpeakerId_def Let_def)
qed

lemma nextSpeakerId_noSystem:
  "ags \<noteq> [] \<Longrightarrow> noSystemId ags \<Longrightarrow> nextSpeakerId ags s \<noteq> SYSTEM"
  using nextSpeakerId_in [of ags s] by (auto simp: noSystemId_def)

lemma first_noSystem:
  "ags \<noteq> [] \<Longrightarrow> noSystemId ags \<Longrightarrow> agent_id (ags ! 0) \<noteq> SYSTEM"
  by (cases ags) (simp_all add: noSystemId_def)

lemma noSystemId_count:
  "noSystemId (agents cfg) \<Longrightarrow> noSystemId (agents (handleAgentCountChange count clock cfg))"
  by (auto simp: handleAgentCountChange_def Let_def noSystemId_def newAgent_id
      dest: in_set_takeD)

lemma handleAgentChange_ids:
  "map agent_id (agents (handleAgentChange index field v cfg)) = map agent_id (agents cfg)"
  by (cases field) (simp_all add: handleAgentChange_def map_update list_update_same_conv)

lemma noSystemId_ids: "noSystemId ags \<longleftrightarrow> SYSTEM \<notin> set (map agent_id ags)"
  by (force simp: noSystemId_def)

lemma noSystemId_change:
  "noSystemId (agents cfg) \<Longrightarrow> noSystemId (agents (handleAgentChange index field v cfg))"
  unfolding noSystemId_ids handleAgentChange_ids .

lemma coherent_handleStart:
  assumes "coherent w"
  shows "coherent (handleStart envKey sdk st w)"
proof -
  have ns: "noSystemId (agents (config (app w)))" using assms by (simp add: coherent_def)
  have f: "agents (config (app w)) \<noteq> [] \<Longrightarrow> agent_id (agents (config (app w)) ! 0) \<noteq> SYSTEM"
    using first_noSystem ns by blast
  show ?thesis
    using assms f
    by (auto simp: coherent_def handleStart_def Let_def addMessage_def hd_conv_nth
        split: prod.splits sum.splits)
qed

lemma coherent_handleStop: "coherent w \<Longrightarrow> coherent (handleStop st w)"
  by (simp add: coherent_def handleStop_def addMessage_def)

lemma coherent_handleReset: "coherent w \<Longrightarrow> coherent (handleReset w)"
  by (simp add: coherent_def handleReset_def resetConversationState_def)

lemma coherent_userSubmit:
  assumes "coherent w"
  shows "coherent (userSubmit envKey sdk st1 st2 txt w)"
proof -
  have ns: "noSystemId (agents (config (app w)))" using assms by (simp add: coherent_def)
  have f: "agents (config (app w)) \<noteq> [] \<Longrightarrow> agent_id (agents (config (app w)) ! 0) \<noteq> SYSTEM"
    using first_noSystem ns by blast
  show ?thesis
    using assms f USER_not_SYSTEM
    by (auto simp: coherent_def userSubmit_def handleUserSubmit_def Let_def addMessage_def
        firstSpeakerIfNone_def split: prod.splits sum.splits)
qed

lemma coherent_effectFires:
  assumes "coherent w"
  shows "coherent (effectFires st w)"
  using assms
  by (auto simp: coherent_def effectFires_def Let_def addMessage_def closureSound_def
      split: option.splits)

lemma coherent_timerFires:
  assumes "coherent w"
  shows "coherent (timerFires r w)"
  using assms
  by (auto simp: coherent_def timerFires_def split: option.splits prod.splits)

lemma coherent_callSettles:
  assumes "coherent w"
  shows "coherent (callSettles i st w)"
proof (cases "i < length (inflight w)")
  case False
  then show ?thesis using assms by (simp add: callSettles_def)
next
  case True
  obtain c res where p: "inflight w ! i = (c, res)" by (cases "inflight w ! i")
  have "(c, res) \<in> set (inflight w)" using True p nth_mem by metis
  then have cs: "closureSound c" using assms by (auto simp: coherent_def)
  then have nx: "nextSpeakerId (tc_agents c) (tc_speaker c) \<noteq> SYSTEM"
    using nextSpeakerId_noSystem by (simp add: closureSound_def)
  have sp: "tc_speaker c \<noteq> SYSTEM" using cs by (simp add: closureSound_def)
  have rest: "\<forall>p \<in> set (take i (inflight w) @ drop (Suc i) (inflight w)). closureSound (fst p)"
    using assms by (auto simp: coherent_def dest: in_set_takeD in_set_dropD)
  show ?thesis
    using assms True p nx sp rest
    by (cases res) (auto simp: coherent_def callSettles_def Let_def addMessage_def)
qed

lemma coherent_summaryEffect: "coherent w \<Longrightarrow> coherent (summaryEffect envKey st w)"
  by (auto simp: coherent_def summaryEffect_def Let_def addMessage_def)

lemma coherent_summarySettled: "coherent w \<Longrightarrow> coherent (summarySettled outcome st w)"
  using SUMMARY_not_SYSTEM
  by (auto simp: coherent_def summarySettled_def Let_def addMessage_def split: option.splits)

lemma coherent_whileNotRunning:
  assumes "coherent w" "noSystemId (agents (f (config (app w))))"
  shows "coherent (whileNotRunning f w)"
  using assms by (simp add: coherent_def whileNotRunning_def)

lemma coherent_handlePresetChange:
  "coherent w \<Longrightarrow> noSystemId (p_agents p) \<Longrightarrow> coherent (handlePresetChange envKey p w)"
  by (simp add: coherent_def handlePresetChange_def resetConversationState_def Let_def)

lemma step_coherent:
  assumes "coherent w" "fromTable e"
  shows "coherent (step envKey e w)"
proof -
  have ns: "noSystemId (agents (config (app w)))" using assms(1) by (simp add: coherent_def)
  show ?thesis
    using assms ns
    by (cases e)
      (simp_all add: coherent_handleStart coherent_handleStop coherent_handleReset
        coherent_userSubmit coherent_effectFires coherent_timerFires coherent_callSettles
        coherent_summaryEffect coherent_summarySettled coherent_whileNotRunning
        coherent_handlePresetChange noSystemId_count noSystemId_change
        handleApiKeyChange_frame)
qed

lemma reachable_coherent: "reachable envKey w \<Longrightarrow> coherent w"
proof (induction rule: reachable.induct)
  case (initial cfg)
  then show ?case by (simp add: coherent_def initialWorld_def speakerSet_def)
next
  case (after w e)
  then show ?case by (simp add: step_coherent)
qed

lemma reachable_first_speaker:
  assumes "reachable envKey w" "turnRuns w speaker"
    "\<forall>x \<in> set (messages (app w)). senderId x = SYSTEM"
  shows "speaker = agent_id (hd (agents (config (app w))))"
proof -
  have ne: "agents (config (app w)) \<noteq> []"
    using assms(2) below_limit_roster by (auto simp: turnRuns_def)
  have "speakerSet (currentSpeakerId (app w))"
    using assms(2) by (simp add: turnRuns_def speakerSet_def)
  then show ?thesis
    using reachable_coherent [OF assms(1)] assms(2,3) ne
    by (simp add: coherent_def turnRuns_def)
qed

subsection \<open>The prompt of a turn in a run\<close>

lemma effectFires_prompt:
  assumes "turnRuns w speaker" "promptText (config (app w)) (messages (app w)) speaker = Some p"
  shows "generateCalls (timerFires r (effectFires st w)) = generateCalls w @ [(speaker, p)]"
  using assms
  by (simp add: effectFires_def timerFires_def turnRuns_def Let_def split: prod.splits)

lemma effectFires_skip:
  assumes "turnRuns w speaker" "promptText (config (app w)) (messages (app w)) speaker = None"
  shows "effectFires st w = w\<lparr>pendingTimer := None\<rparr>"
  using assms
  by (simp add: effectFires_def turnRuns_def Let_def)

text \<open>The guard of the block that determines the prompt, in a state of any kind: with an
  empty transcript and a speaker that is not the first agent, the turn is skipped.\<close>

lemma turn_skipped_empty:
  assumes "turnRuns w speaker" "messages (app w) = []"
    "speaker \<noteq> agent_id (hd (agents (config (app w))))"
  shows "processTurn r st w = w" and "effectFires st w = w\<lparr>pendingTimer := None\<rparr>"
proof -
  have ne: "agents (config (app w)) \<noteq> []"
    using assms(1) below_limit_roster by (auto simp: turnRuns_def)
  have "promptText (config (app w)) (messages (app w)) speaker = None"
    using promptText_topic
      [of "messages (app w)" "agents (config (app w))" "config (app w)" speaker] ne assms(2,3)
    by auto
  then show "processTurn r st w = w" and "effectFires st w = w\<lparr>pendingTimer := None\<rparr>"
    using processTurn_skip [OF assms(1)] effectFires_skip [OF assms(1)] by blast+
qed

text \<open>
  C1. In an execution of the automatic turn that gets past its guards, in a state of a run
  of the component: when the transcript has a message that is not from \<^verbatim>\<open>SYSTEM\<close>, the
  generator is called with the label of the sender of the last such message, the word for
  "'s statement: " and the text of that message; when it has none, the current speaker is
  the first agent of the roster and the generator is called with the raw topic. So the case
  of a transcript without such a message and another speaker, in which the turn would be
  skipped, does not arise in a run. The call is the one made when the pacing timer of the
  effect fires, and the one of the execution taken as a whole.
\<close>

theorem processTurn_prompt_derivation:
  assumes "reachable envKey w" "turnRuns w speaker"
  shows "(\<forall>pre m post. messages (app w) = pre @ m # post \<and> senderId m \<noteq> SYSTEM
            \<and> (\<forall>x \<in> set post. senderId x = SYSTEM)
          \<longrightarrow> generateCalls (timerFires r (effectFires st w))
                = generateCalls w
                  @ [(speaker, speakerLabel (config (app w)) m @ saidSuffix @ msg_text m)]
              \<and> generateCalls (processTurn r st w)
                = generateCalls w
                  @ [(speaker, speakerLabel (config (app w)) m @ saidSuffix @ msg_text m)])
       \<and> ((\<forall>x \<in> set (messages (app w)). senderId x = SYSTEM)
          \<longrightarrow> speaker = agent_id (hd (agents (config (app w))))
              \<and> generateCalls (timerFires r (effectFires st w))
                = generateCalls w @ [(speaker, topic (config (app w)))]
              \<and> generateCalls (processTurn r st w)
                = generateCalls w @ [(speaker, topic (config (app w)))])"
proof -
  have ne: "agents (config (app w)) \<noteq> []"
    using assms(2) below_limit_roster by (auto simp: turnRuns_def)
  show ?thesis
  proof (intro conjI allI impI)
    fix pre m post
    assume "messages (app w) = pre @ m # post \<and> senderId m \<noteq> SYSTEM
            \<and> (\<forall>x \<in> set post. senderId x = SYSTEM)"
    then have p: "promptText (config (app w)) (messages (app w)) speaker
                 = Some (speakerLabel (config (app w)) m @ saidSuffix @ msg_text m)"
      using promptText_last by blast
    from p show "generateCalls (timerFires r (effectFires st w))
                = generateCalls w
                  @ [(speaker, speakerLabel (config (app w)) m @ saidSuffix @ msg_text m)]"
      using effectFires_prompt [OF assms(2)] by blast
    from p show "generateCalls (processTurn r st w)
                = generateCalls w
                  @ [(speaker, speakerLabel (config (app w)) m @ saidSuffix @ msg_text m)]"
      using processTurn_prompt [OF assms(2)] by blast
  next
    assume a: "\<forall>x \<in> set (messages (app w)). senderId x = SYSTEM"
    show f: "speaker = agent_id (hd (agents (config (app w))))"
      using reachable_first_speaker [OF assms a] .
    have p: "promptText (config (app w)) (messages (app w)) speaker
                 = Some (topic (config (app w)))"
      using promptText_topic
        [of "messages (app w)" "agents (config (app w))" "config (app w)" speaker] ne a f
      by auto
    from p show "generateCalls (timerFires r (effectFires st w))
                = generateCalls w @ [(speaker, topic (config (app w)))]"
      using effectFires_prompt [OF assms(2)] by blast
    from p show "generateCalls (processTurn r st w)
                = generateCalls w @ [(speaker, topic (config (app w)))]"
      using processTurn_prompt [OF assms(2)] by blast
  qed
qed

lemma reachable_startedWorld: "reachable [] startedWorld"
proof -
  have "startedWorld = run [] [Start None stamp1] (initialWorld exampleConfig)"
    by (simp add: startedWorld_def)
  then show ?thesis
    using reachable_run [OF reachable.initial [OF noSystemId_example], of "[Start None stamp1]" "[]"]
    by simp
qed

lemma reachable_greetedWorld: "reachable [] greetedWorld"
  unfolding greetedWorld_def
  by (intro reachable_run reachable.initial noSystemId_example) simp

theorem processTurn_prompt_derivation_witness:
  "reachable [] greetedWorld
   \<and> turnRuns greetedWorld (ascii ''A'')
   \<and> messages (app greetedWorld) = [startedMessage, userHello]
   \<and> generateCalls (timerFires okReply (effectFires stamp4 greetedWorld))
       = [(ascii ''A'', [0x30E6, 0x30FC, 0x30B6, 0x30FC] @ saidSuffix @ ascii ''hi'')]
   \<and> reachable [] startedWorld
   \<and> turnRuns startedWorld (ascii ''A'')
   \<and> map senderId (messages (app startedWorld)) = [SYSTEM]
   \<and> ascii ''A'' = agent_id (hd (agents (config (app startedWorld))))
   \<and> generateCalls (processTurn okReply stamp2 startedWorld) = [(ascii ''A'', ascii ''tea'')]"
proof -
  have g: "turnRuns greetedWorld (ascii ''A'')"
    unfolding greetedWorld_def by code_simp
  have gm: "messages (app greetedWorld) = [startedMessage, userHello]"
    unfolding greetedWorld_def by code_simp
  have gc: "generateCalls greetedWorld = []"
    unfolding greetedWorld_def by code_simp
  have s: "turnRuns startedWorld (ascii ''A'')"
    unfolding startedWorld_def by code_simp
  have sm: "map senderId (messages (app startedWorld)) = [SYSTEM]"
    unfolding startedWorld_def by code_simp
  have sc: "generateCalls startedWorld = []"
    unfolding startedWorld_def by code_simp
  have st: "topic (config (app startedWorld)) = ascii ''tea''"
    unfolding startedWorld_def by code_simp
  have all: "\<forall>x \<in> set (messages (app startedWorld)). senderId x = SYSTEM"
  proof -
    have "set (map senderId (messages (app startedWorld))) = {SYSTEM}" using sm by simp
    then show ?thesis by auto
  qed
  have last: "messages (app greetedWorld) = [startedMessage] @ userHello # []
            \<and> senderId userHello \<noteq> SYSTEM \<and> (\<forall>x \<in> set []. senderId x = SYSTEM)"
    using gm by (simp add: userHello_def USER_not_SYSTEM)
  have lab: "speakerLabel (config (app greetedWorld)) userHello = [0x30E6, 0x30FC, 0x30B6, 0x30FC]"
    by (simp add: speakerLabel_def userHello_def)
  from processTurn_prompt_derivation [OF reachable_greetedWorld g, of okReply stamp4] last
  have "generateCalls (timerFires okReply (effectFires stamp4 greetedWorld))
          = generateCalls greetedWorld
            @ [(ascii ''A'', speakerLabel (config (app greetedWorld)) userHello @ saidSuffix
                  @ msg_text userHello)]"
    by blast
  then have 1: "generateCalls (timerFires okReply (effectFires stamp4 greetedWorld))
       = [(ascii ''A'', [0x30E6, 0x30FC, 0x30B6, 0x30FC] @ saidSuffix @ ascii ''hi'')]"
    using gc lab by (simp add: userHello_def)
  from processTurn_prompt_derivation [OF reachable_startedWorld s, of okReply stamp2] all
  have 2: "ascii ''A'' = agent_id (hd (agents (config (app startedWorld))))"
    and "generateCalls (processTurn okReply stamp2 startedWorld)
           = generateCalls startedWorld @ [(ascii ''A'', topic (config (app startedWorld)))]"
    by blast+
  then have 3: "generateCalls (processTurn okReply stamp2 startedWorld)
                  = [(ascii ''A'', ascii ''tea'')]"
    using sc st by simp
  from reachable_greetedWorld g gm 1 reachable_startedWorld s sm 2 3 show ?thesis by blast
qed

subsection \<open>A failed generation\<close>


subsection \<open>Starting\<close>

lemma handleStart_started:
  assumes "trim (topic (config (app w))) \<noteq> []"
      and "startKey envKey w \<noteq> []"
      and "fst (startInitialization envKey sdk w) = Inr ()"
      and "agents (config (app w)) \<noteq> []"
  shows "messages (app (handleStart envKey sdk st w)) =
           [\<lparr>msg_id = fst st, senderId = SYSTEM,
             msg_text = ascii ''Discussion Started: '' @ [0x22] @ topic (config (app w)) @ [0x22],
             timestamp = snd st\<rparr>]"
    and "turnCount (app (handleStart envKey sdk st w)) = 0"
    and "currentSpeakerId (app (handleStart envKey sdk st w))
           = Some (agent_id (hd (agents (config (app w)))))"
    and "status (app (handleStart envKey sdk st w)) = ACTIVE"
    and "agents (config (app (handleStart envKey sdk st w))) = agents (config (app w))"
    and "maxTurns (config (app (handleStart envKey sdk st w))) = maxTurns (config (app w))"
  using assms
  by (auto simp: handleStart_def startKey_def startInitialization_def Let_def addMessage_def
      announcement_def hd_conv_nth split: prod.splits sum.splits)

text \<open>
  C7. After a start with a topic that is not blank, a key that resolves to a non-empty
  string, a session initialization that succeeds and a roster that has a first agent, the
  transcript is exactly the announcement, a \<^verbatim>\<open>SYSTEM\<close> message quoting the topic; the turn
  count is zero, the current speaker is the first agent of the roster, and the status is
  \<^verbatim>\<open>ACTIVE\<close>.
\<close>

theorem handleStart_valid:
  assumes "trim (topic (config (app w))) \<noteq> []"
      and "startKey envKey w \<noteq> []"
      and "fst (startInitialization envKey sdk w) = Inr ()"
      and "agents (config (app w)) \<noteq> []"
  shows "messages (app (handleStart envKey sdk st w)) =
           [\<lparr>msg_id = fst st, senderId = SYSTEM,
             msg_text = ascii ''Discussion Started: '' @ [0x22] @ topic (config (app w)) @ [0x22],
             timestamp = snd st\<rparr>]
       \<and> turnCount (app (handleStart envKey sdk st w)) = 0
       \<and> currentSpeakerId (app (handleStart envKey sdk st w))
           = Some (agent_id (hd (agents (config (app w)))))
       \<and> status (app (handleStart envKey sdk st w)) = ACTIVE"
  using handleStart_started [OF assms] by simp

theorem handleStart_valid_witness:
  "trim (topic (config (app (initialWorld exampleConfig)))) \<noteq> []
   \<and> startKey [] (initialWorld exampleConfig) \<noteq> []
   \<and> fst (startInitialization [] None (initialWorld exampleConfig)) = Inr ()
   \<and> agents (config (app (initialWorld exampleConfig))) \<noteq> []
   \<and> messages (app (handleStart [] None stamp1 (initialWorld exampleConfig))) =
           [\<lparr>msg_id = ascii ''m1'', senderId = SYSTEM,
             msg_text = ascii ''Discussion Started: '' @ [0x22] @ ascii ''tea'' @ [0x22],
             timestamp = 1\<rparr>]
   \<and> turnCount (app (handleStart [] None stamp1 (initialWorld exampleConfig))) = 0
   \<and> currentSpeakerId (app (handleStart [] None stamp1 (initialWorld exampleConfig)))
        = Some (ascii ''A'')
   \<and> status (app (handleStart [] None stamp1 (initialWorld exampleConfig))) = ACTIVE"
proof -
  have t: "trim (topic (config (app (initialWorld exampleConfig)))) \<noteq> []"
    by (simp add: initialWorld_def exampleConfig_def trim_def ascii_def isWhiteSpace_def)
  have k: "startKey [] (initialWorld exampleConfig) = ascii ''sk-1''"
    by (simp add: startKey_def getEffectiveApiKey_def initialWorld_def exampleConfig_def
        trim_def ascii_def isWhiteSpace_def orElse_def)
  then have k': "startKey [] (initialWorld exampleConfig) \<noteq> []" by (simp add: ascii_def)
  have i: "fst (startInitialization [] None (initialWorld exampleConfig)) = Inr ()"
    unfolding startInitialization_def k
    by (rule initializeChats_client_built) (simp add: trim_def ascii_def isWhiteSpace_def)
  have a: "agents (config (app (initialWorld exampleConfig))) \<noteq> []"
    by (simp add: initialWorld_def exampleConfig_def)
  from handleStart_valid [OF t k' i a, of stamp1] t k' i a show ?thesis
    by (simp add: stamp1_def initialWorld_def exampleConfig_def agentA_def)
qed

subsection \<open>A message of the user\<close>

text \<open>
  C10, as the code has it. Submitting a text that is not blank appends a \<^verbatim>\<open>USER\<close> message
  with that text to the transcript, whatever the status and whether or not the implicit
  initialization succeeds; what may follow it is a \<^verbatim>\<open>SYSTEM\<close> message about a failed
  implicit start. Submitting a blank text is ignored: it appends nothing and changes
  nothing but the content of the input field.
\<close>

theorem userSubmit_appends:
  "(trim txt \<noteq> [] \<longrightarrow>
      (\<exists>rest. messages (app (userSubmit envKey sdk st1 st2 txt w))
            = messages (app w)
              @ \<lparr>msg_id = fst st1, senderId = USER, msg_text = txt, timestamp = snd st1\<rparr> # rest
          \<and> (\<forall>m \<in> set rest. senderId m = SYSTEM)))
   \<and> (trim txt = [] \<longrightarrow>
        userSubmit envKey sdk st1 st2 txt w = w\<lparr>app := (app w)\<lparr>userInput := txt\<rparr>\<rparr>)"
  by (auto simp: userSubmit_def handleUserSubmit_def Let_def addMessage_def
      split: prod.splits sum.splits)

theorem userSubmit_appends_witness:
  "trim (ascii ''hi'') \<noteq> []
   \<and> (\<exists>rest. messages (app (userSubmit [] None stamp1 stamp2 (ascii ''hi'')
                               (initialWorld exampleConfig)))
            = messages (app (initialWorld exampleConfig))
              @ \<lparr>msg_id = fst stamp1, senderId = USER, msg_text = ascii ''hi'',
                 timestamp = snd stamp1\<rparr> # rest
          \<and> (\<forall>m \<in> set rest. senderId m = SYSTEM))
   \<and> trim (ascii ''  '') = []
   \<and> userSubmit [] None stamp1 stamp2 (ascii ''  '') startedWorld
       = startedWorld\<lparr>app := (app startedWorld)\<lparr>userInput := ascii ''  ''\<rparr>\<rparr>"
proof -
  have t: "trim (ascii ''hi'') \<noteq> []"
    by (simp add: trim_def ascii_def isWhiteSpace_def)
  have b: "trim (ascii ''  '') = []"
    by (simp add: trim_def ascii_def isWhiteSpace_def)
  from userSubmit_appends [of "ascii ''hi''" "[]" None stamp1 stamp2 "initialWorld exampleConfig"] t
  have 1: "\<exists>rest. messages (app (userSubmit [] None stamp1 stamp2 (ascii ''hi'')
                               (initialWorld exampleConfig)))
            = messages (app (initialWorld exampleConfig))
              @ \<lparr>msg_id = fst stamp1, senderId = USER, msg_text = ascii ''hi'',
                 timestamp = snd stamp1\<rparr> # rest
          \<and> (\<forall>m \<in> set rest. senderId m = SYSTEM)"
    by blast
  from userSubmit_appends [of "ascii ''  ''" "[]" None stamp1 stamp2 startedWorld] b
  have 2: "userSubmit [] None stamp1 stamp2 (ascii ''  '') startedWorld
       = startedWorld\<lparr>app := (app startedWorld)\<lparr>userInput := ascii ''  ''\<rparr>\<rparr>"
    by blast
  from t 1 b 2 show ?thesis by blast
qed

text \<open>
  C10 as stated, for every text, does not hold: the handler returns at once when the text
  is blank, and a text of two spaces leaves the transcript empty.
\<close>

theorem userSubmit_blank_counterexample:
  "messages (app (userSubmit [] None stamp1 stamp2 (ascii ''  '') (initialWorld exampleConfig)))
     = []"
  by (simp add: userSubmit_def handleUserSubmit_def initialWorld_def trim_def ascii_def
      isWhiteSpace_def)

subsection \<open>Instances of the turn properties\<close>



subsection \<open>The local summary\<close>

lemma length_sliceLast: "length (sliceLast n xs) = min n (length xs)"
  by (simp add: sliceLast_def)

lemma sliceLast_suffix: "\<exists>pre. xs = pre @ sliceLast n xs"
  unfolding sliceLast_def by (metis append_take_drop_id)

lemma sliceLast_empty: "sliceLast 6 xs = [] \<longleftrightarrow> xs = []"
  by (cases xs) (auto simp: sliceLast_def)

lemma buildLocalSummary_lines:
  "buildLocalSummary ms tp =
     topicLabel @ orElse tp topicUnset @ [0xA]
     @ (if nonSystem ms = [] then noRecent
        else highlights @ join [0xA] (map summaryBullet (sliceLast 6 (nonSystem ms))))"
  by (simp add: buildLocalSummary_def nonSystem_def Let_def sliceLast_empty)

lemma summaryBullet_budget:
  "\<exists>quoted. summaryBullet m =
       bullet @ (if senderId m = USER then ascii ''User'' else senderId m) @ ascii '': ''
       @ quoted @ (if length (msg_text m) > 120 then ellipsis else [])
     \<and> length quoted \<le> 120 \<and> quoted = take 120 (collapseSpaces (msg_text m))"
  by (simp add: summaryBullet_def Let_def)

lemma summarySettled_failure:
  assumes "pendingSummary w = Some request"
  shows "app (summarySettled (Inl e) st w) =
           (app w)\<lparr>messages := messages (app w) @
               [\<lparr>msg_id = fst st, senderId = SUMMARY,
                 msg_text = summaryFailed @ orElse (message e) unknownReason
                            @ localSummaryHeading
                            @ buildLocalSummary (sr_messages request) (sr_topic request),
                 timestamp = snd st\<rparr>],
             isSummarizing := False\<rparr>"
  using assms by (simp add: summarySettled_def addMessage_def)

text \<open>
  C9. When the summary call that is under way fails with an error \<open>e\<close>, one message
  from \<^verbatim>\<open>SUMMARY\<close> is appended: the failure notice with the error's message (or a default
  reason), a heading, and the local summary of the transcript and topic the call was made
  with. The local summary is the topic line, a line break, and either a fixed sentence or
  a heading followed by one line for each of the last six messages not from \<^verbatim>\<open>SYSTEM\<close>
  (all of them when there are fewer), in their order. A line quotes at most 120 code units
  of the message's text, white space collapsed, and ends with an ellipsis exactly when the
  text itself is longer than 120. Every function involved is total: none can fail.
\<close>

theorem summary_fallback:
  assumes "pendingSummary w = Some request"
  shows "app (summarySettled (Inl e) st w) =
           (app w)\<lparr>messages := messages (app w) @
               [\<lparr>msg_id = fst st, senderId = SUMMARY,
                 msg_text = summaryFailed @ orElse (message e) unknownReason
                            @ localSummaryHeading
                            @ buildLocalSummary (sr_messages request) (sr_topic request),
                 timestamp = snd st\<rparr>],
             isSummarizing := False\<rparr>
       \<and> (\<exists>lines pre.
             buildLocalSummary (sr_messages request) (sr_topic request) =
               topicLabel @ orElse (sr_topic request) topicUnset @ [0xA]
               @ (if lines = [] then noRecent else highlights @ join [0xA] lines)
             \<and> length lines = min 6 (length (nonSystem (sr_messages request)))
             \<and> nonSystem (sr_messages request) = pre @ sliceLast 6 (nonSystem (sr_messages request))
             \<and> lines = map summaryBullet (sliceLast 6 (nonSystem (sr_messages request))))
       \<and> (\<forall>m. \<exists>quoted. summaryBullet m =
               bullet @ (if senderId m = USER then ascii ''User'' else senderId m) @ ascii '': ''
               @ quoted @ (if length (msg_text m) > 120 then ellipsis else [])
             \<and> length quoted \<le> 120 \<and> quoted = take 120 (collapseSpaces (msg_text m)))"
proof (intro conjI)
  show "app (summarySettled (Inl e) st w) =
           (app w)\<lparr>messages := messages (app w) @
               [\<lparr>msg_id = fst st, senderId = SUMMARY,
                 msg_text = summaryFailed @ orElse (message e) unknownReason
                            @ localSummaryHeading
                            @ buildLocalSummary (sr_messages request) (sr_topic request),
                 timestamp = snd st\<rparr>],
             isSummarizing := False\<rparr>"
    using assms by (rule summarySettled_failure)
next
  let ?ns = "nonSystem (sr_messages request)"
  let ?lines = "map summaryBullet (sliceLast 6 ?ns)"
  obtain pre where pre: "?ns = pre @ sliceLast 6 ?ns"
    using sliceLast_suffix by blast
  have e: "(?lines = []) = (?ns = [])"
    by (simp add: sliceLast_empty)
  have "buildLocalSummary (sr_messages request) (sr_topic request) =
               topicLabel @ orElse (sr_topic request) topicUnset @ [0xA]
               @ (if ?lines = [] then noRecent else highlights @ join [0xA] ?lines)"
    unfolding e by (rule buildLocalSummary_lines)
  moreover have "length ?lines = min 6 (length ?ns)"
    by (simp add: length_sliceLast)
  ultimately show "\<exists>lines pre.
             buildLocalSummary (sr_messages request) (sr_topic request) =
               topicLabel @ orElse (sr_topic request) topicUnset @ [0xA]
               @ (if lines = [] then noRecent else highlights @ join [0xA] lines)
             \<and> length lines = min 6 (length ?ns)
             \<and> ?ns = pre @ sliceLast 6 ?ns
             \<and> lines = map summaryBullet (sliceLast 6 ?ns)"
    using pre by blast
next
  show "\<forall>m. \<exists>quoted. summaryBullet m =
               bullet @ (if senderId m = USER then ascii ''User'' else senderId m) @ ascii '': ''
               @ quoted @ (if length (msg_text m) > 120 then ellipsis else [])
             \<and> length quoted \<le> 120 \<and> quoted = take 120 (collapseSpaces (msg_text m))"
    using summaryBullet_budget by blast
qed


theorem summary_fallback_witness:
  "pendingSummary (summaryEffect [] stamp3 completedWorld)
     = Some \<lparr>sr_messages = [startedMessage, userHello], sr_topic = ascii ''tea'',
             sr_globalRules = [], sr_apiKey = ascii ''sk-1'', sr_provider = openai,
             sr_model = ascii ''gpt-4o-mini''\<rparr>
   \<and> messages (app (summarySettled (Inl (Error (ascii ''offline''))) stamp4
                      (summaryEffect [] stamp3 completedWorld)))
     = [startedMessage, userHello,
        \<lparr>msg_id = ascii ''m3'', senderId = SYSTEM, msg_text = summarizingNotice, timestamp = 3\<rparr>,
        \<lparr>msg_id = ascii ''m4'', senderId = SUMMARY,
         msg_text = summaryFailed @ ascii ''offline'' @ localSummaryHeading
                    @ topicLabel @ ascii ''tea'' @ [0xA] @ highlights
                    @ bullet @ ascii ''User: hi'',
         timestamp = 4\<rparr>]"
proof -
  have p: "pendingSummary (summaryEffect [] stamp3 completedWorld)
     = Some \<lparr>sr_messages = [startedMessage, userHello], sr_topic = ascii ''tea'',
             sr_globalRules = [], sr_apiKey = ascii ''sk-1'', sr_provider = openai,
             sr_model = ascii ''gpt-4o-mini''\<rparr>"
    by (simp add: summaryEffect_def completedWorld_def exampleConfig_def Let_def
        getEffectiveApiKey_def orElse_def trim_def ascii_def isWhiteSpace_def)
  have b: "buildLocalSummary [startedMessage, userHello] (ascii ''tea'')
            = topicLabel @ ascii ''tea'' @ [0xA] @ highlights @ bullet @ ascii ''User: hi''"
    by (simp add: buildLocalSummary_def startedMessage_def userHello_def sliceLast_def
        summaryBullet_def Let_def orElse_def SYSTEM_def USER_def ascii_def isWhiteSpace_def)
  have m: "messages (app (summaryEffect [] stamp3 completedWorld))
            = [startedMessage, userHello,
        \<lparr>msg_id = ascii ''m3'', senderId = SYSTEM, msg_text = summarizingNotice, timestamp = 3\<rparr>]"
    by (simp add: summaryEffect_def completedWorld_def Let_def addMessage_def stamp3_def)
  from summary_fallback [OF p, of "Error (ascii ''offline'')" stamp4] p b m
  show ?thesis
    by (simp add: stamp4_def orElse_def ascii_def)
qed

subsection \<open>The turn budget\<close>














subsection \<open>Round robin\<close>


lemma findIndex_nonneg: "v \<in> f ` set xs \<Longrightarrow> 0 \<le> findIndex (\<lambda>a. f a = v) xs"
  by (induction xs) (auto simp: Let_def)











subsection \<open>The summary latch\<close>

lemma summaryEffect_triggers:
  assumes "status (app w) = COMPLETED" "\<not> hasSummarizedRef (app w)" "messages (app w) \<noteq> []"
  shows "summaryCalls (summaryEffect envKey st w) = summaryCalls w @ [summaryRequest envKey w]"
    and "hasSummarizedRef (app (summaryEffect envKey st w))"
  using assms by (simp_all add: summaryEffect_def summaryRequest_def Let_def addMessage_def)

lemma summaryEffect_idle:
  assumes "\<not> (status (app w) = COMPLETED \<and> messages (app w) \<noteq> [] \<and> \<not> hasSummarizedRef (app w))"
  shows "summaryEffect envKey st w = w"
  using assms by (auto simp: summaryEffect_def Let_def)

lemma summaryEffect_count:
  "length (summaryCalls (summaryEffect envKey st w)) + (if hasSummarizedRef (app w) then 1 else 0)
     = length (summaryCalls w) + (if hasSummarizedRef (app (summaryEffect envKey st w)) then 1 else 0)"
  by (simp add: summaryEffect_def Let_def addMessage_def)

lemma restart_unlatched:
  "\<not> hasSummarizedRef (app (handleReset w))"
  "\<not> hasSummarizedRef (app (handlePresetChange envKey p w))"
  "trim (topic (config (app w))) \<noteq> [] \<Longrightarrow> getEffectiveApiKey envKey (config (app w)) \<noteq> []
   \<Longrightarrow> \<not> hasSummarizedRef (app (handleStart envKey sdk st w))"
  by (auto simp: handleReset_def handlePresetChange_def resetConversationState_def
      handleStart_def Let_def addMessage_def split: prod.splits sum.splits)

lemma step_other_summary:
  assumes "\<forall>st. e \<noteq> SummaryEffect st"
  shows "summaryCalls (step envKey e w) = summaryCalls w"
  using assms
  by (cases e)
    (simp_all add: handleStart_frame handleStop_frame handleReset_frame userSubmit_frame
      effectFires_frame timerFires_frame callSettles_frame summarySettled_frame
      whileNotRunning_frame handlePresetChange_frame)

lemma step_latch:
  assumes "\<not> restarts e" "\<forall>st. e \<noteq> SummaryEffect st"
  shows "hasSummarizedRef (app (step envKey e w)) = hasSummarizedRef (app w)"
  using assms
  by (cases e)
    (simp_all add: handleStop_frame userSubmit_frame
      effectFires_frame timerFires_frame callSettles_frame summarySettled_frame
      whileNotRunning_frame)

lemma step_summary_count:
  assumes "\<not> restarts e"
  shows "length (summaryCalls (step envKey e w)) + (if hasSummarizedRef (app w) then 1 else 0)
     = length (summaryCalls w) + (if hasSummarizedRef (app (step envKey e w)) then 1 else 0)"
proof (cases "\<exists>st. e = SummaryEffect st")
  case True
  then obtain st where "e = SummaryEffect st" by blast
  then show ?thesis using summaryEffect_count [of envKey st w] by simp
next
  case False
  then show ?thesis using step_other_summary [of e envKey w] step_latch [OF assms, of envKey w]
    by simp
qed

lemma run_summary_count:
  "\<forall>e \<in> set es. \<not> restarts e \<Longrightarrow>
   length (summaryCalls (run envKey es w)) + (if hasSummarizedRef (app w) then 1 else 0)
     = length (summaryCalls w) + (if hasSummarizedRef (app (run envKey es w)) then 1 else 0)"
proof (induction es arbitrary: w)
  case Nil
  then show ?case by simp
next
  case (Cons e es)
  from Cons.prems have e: "\<not> restarts e" and es: "\<forall>e \<in> set es. \<not> restarts e" by auto
  from step_summary_count [OF e, of envKey w] Cons.IH [OF es, of "step envKey e w"]
  show ?case by (simp split: if_splits)
qed

lemma step_latched:
  assumes "\<not> restarts e" "hasSummarizedRef (app w)"
  shows "summaryCalls (step envKey e w) = summaryCalls w \<and> hasSummarizedRef (app (step envKey e w))"
proof (cases "\<exists>st. e = SummaryEffect st")
  case True
  then obtain st where "e = SummaryEffect st" by blast
  then show ?thesis using summaryEffect_idle [of w envKey st] assms(2) by simp
next
  case False
  then show ?thesis using step_other_summary [of e envKey w] step_latch [OF assms(1), of envKey w]
      assms(2) by simp
qed

lemma run_latched:
  "\<forall>e \<in> set es. \<not> restarts e \<Longrightarrow> hasSummarizedRef (app w)
   \<Longrightarrow> summaryCalls (run envKey es w) = summaryCalls w"
proof (induction es arbitrary: w)
  case Nil
  then show ?case by simp
next
  case (Cons e es)
  from Cons.prems have e: "\<not> restarts e" and es: "\<forall>e \<in> set es. \<not> restarts e" by auto
  from step_latched [OF e Cons.prems(2), of envKey] Cons.IH [OF es, of "step envKey e w"]
  show ?case by simp
qed

lemma run_before_completed:
  "\<forall>e \<in> set es. \<not> restarts e \<Longrightarrow> \<not> hasSummarizedRef (app w)
   \<Longrightarrow> \<forall>k < length es. status (app (run envKey (take k es) w)) \<noteq> COMPLETED
   \<Longrightarrow> summaryCalls (run envKey es w) = summaryCalls w
       \<and> \<not> hasSummarizedRef (app (run envKey es w))"
proof (induction es arbitrary: w)
  case Nil
  then show ?case by simp
next
  case (Cons e es)
  from Cons.prems(1) have e: "\<not> restarts e" and es: "\<forall>e \<in> set es. \<not> restarts e" by auto
  from Cons.prems(3) have now: "status (app w) \<noteq> COMPLETED" by fastforce
  have later: "\<forall>k < length es. status (app (run envKey (take k es) (step envKey e w))) \<noteq> COMPLETED"
  proof (intro allI impI)
    fix k assume "k < length es"
    then have "Suc k < length (e # es)" by simp
    then have "status (app (run envKey (take (Suc k) (e # es)) w)) \<noteq> COMPLETED"
      using Cons.prems(3) by blast
    then show "status (app (run envKey (take k es) (step envKey e w))) \<noteq> COMPLETED" by simp
  qed
  have s: "summaryCalls (step envKey e w) = summaryCalls w
           \<and> \<not> hasSummarizedRef (app (step envKey e w))"
  proof (cases "\<exists>st. e = SummaryEffect st")
    case True
    then obtain st where "e = SummaryEffect st" by blast
    then show ?thesis using summaryEffect_idle [of w envKey st] now Cons.prems(2) by simp
  next
    case False
    then show ?thesis
      using step_other_summary [of e envKey w] step_latch [OF e, of envKey w] Cons.prems(2)
      by simp
  qed
  from Cons.IH [OF es _ later, of] s show ?case by simp
qed

text \<open>
  C8. The latch is cleared by what begins a conversation: a reset, a change of preset, and
  a start that gets past its checks of the topic and the key. The summary effect makes the
  call, with the transcript and the configuration of the state it runs in, and sets the
  latch, when the status is \<^verbatim>\<open>COMPLETED\<close>, the transcript is not empty and the latch
  is not set; in every other state it does nothing at all, so there is no call before the
  conversation has ended, and none when the latch is set. No other event makes a summary
  call. Hence over events none of which starts a conversation afresh, the number of calls
  grows by one exactly if the latch goes from not set to set, and not at all from a state in
  which it is set, however often the effect fires and the status becomes \<^verbatim>\<open>COMPLETED\<close>
  again; and from a state in which the latch is not set, as long as no state has had the
  status \<^verbatim>\<open>COMPLETED\<close>, no call has been made and the latch is still not set, so that the
  effect makes the call in the first state that has it, when its transcript is not empty.
\<close>

theorem summary_once:
  "\<not> hasSummarizedRef (app (handleReset w))
   \<and> \<not> hasSummarizedRef (app (handlePresetChange envKey p w))
   \<and> (trim (topic (config (app w))) \<noteq> [] \<and> getEffectiveApiKey envKey (config (app w)) \<noteq> []
        \<longrightarrow> \<not> hasSummarizedRef (app (handleStart envKey sdk st w)))
   \<and> (status (app w) = COMPLETED \<and> messages (app w) \<noteq> [] \<and> \<not> hasSummarizedRef (app w)
        \<longrightarrow> summaryCalls (summaryEffect envKey st w) = summaryCalls w @ [summaryRequest envKey w]
            \<and> hasSummarizedRef (app (summaryEffect envKey st w)))
   \<and> (\<not> (status (app w) = COMPLETED \<and> messages (app w) \<noteq> [] \<and> \<not> hasSummarizedRef (app w))
        \<longrightarrow> summaryEffect envKey st w = w)
   \<and> ((\<forall>st'. e \<noteq> SummaryEffect st') \<longrightarrow> summaryCalls (step envKey e w) = summaryCalls w)
   \<and> (\<forall>es. (\<forall>e \<in> set es. \<not> restarts e)
        \<longrightarrow> length (summaryCalls (run envKey es w))
                + (if hasSummarizedRef (app w) then 1 else 0)
              = length (summaryCalls w)
                + (if hasSummarizedRef (app (run envKey es w)) then 1 else 0)
            \<and> (hasSummarizedRef (app w) \<longrightarrow> summaryCalls (run envKey es w) = summaryCalls w)
            \<and> (\<not> hasSummarizedRef (app w)
                  \<and> (\<forall>k < length es. status (app (run envKey (take k es) w)) \<noteq> COMPLETED)
                \<longrightarrow> summaryCalls (run envKey es w) = summaryCalls w
                    \<and> \<not> hasSummarizedRef (app (run envKey es w))))"
proof (intro conjI impI allI)
  show "\<not> hasSummarizedRef (app (handleReset w))" by (rule restart_unlatched)
  show "\<not> hasSummarizedRef (app (handlePresetChange envKey p w))" by (rule restart_unlatched)
next
  assume "trim (topic (config (app w))) \<noteq> [] \<and> getEffectiveApiKey envKey (config (app w)) \<noteq> []"
  then show "\<not> hasSummarizedRef (app (handleStart envKey sdk st w))"
    using restart_unlatched(3) by blast
next
  assume a: "status (app w) = COMPLETED \<and> messages (app w) \<noteq> [] \<and> \<not> hasSummarizedRef (app w)"
  then show "summaryCalls (summaryEffect envKey st w) = summaryCalls w @ [summaryRequest envKey w]"
    by (intro summaryEffect_triggers) auto
  from a show "hasSummarizedRef (app (summaryEffect envKey st w))"
    by (intro summaryEffect_triggers) auto
next
  assume "\<not> (status (app w) = COMPLETED \<and> messages (app w) \<noteq> [] \<and> \<not> hasSummarizedRef (app w))"
  then show "summaryEffect envKey st w = w" by (rule summaryEffect_idle)
next
  assume "\<forall>st'. e \<noteq> SummaryEffect st'"
  then show "summaryCalls (step envKey e w) = summaryCalls w" by (rule step_other_summary)
next
  fix es
  assume n: "\<forall>e \<in> set es. \<not> restarts e"
  then show "length (summaryCalls (run envKey es w))
                + (if hasSummarizedRef (app w) then 1 else 0)
              = length (summaryCalls w)
                + (if hasSummarizedRef (app (run envKey es w)) then 1 else 0)"
    by (rule run_summary_count)
  {
    assume "hasSummarizedRef (app w)"
    with n show "summaryCalls (run envKey es w) = summaryCalls w" by (rule run_latched)
  }
  assume "\<not> hasSummarizedRef (app w)
          \<and> (\<forall>k < length es. status (app (run envKey (take k es) w)) \<noteq> COMPLETED)"
  then have b: "summaryCalls (run envKey es w) = summaryCalls w
                \<and> \<not> hasSummarizedRef (app (run envKey es w))"
    using run_before_completed [OF n, of w envKey] by blast
  from b show "summaryCalls (run envKey es w) = summaryCalls w" by blast
  from b show "\<not> hasSummarizedRef (app (run envKey es w))" by blast
qed

theorem summary_once_witness:
  "trim (topic (config (app (summaryEffect [] stamp1 endedWorld)))) \<noteq> []
   \<and> getEffectiveApiKey [] (config (app (summaryEffect [] stamp1 endedWorld))) \<noteq> []
   \<and> \<not> hasSummarizedRef (app (handleStart [] None stamp2 (summaryEffect [] stamp1 endedWorld)))
   \<and> \<not> hasSummarizedRef (app startedWorld)
   \<and> map (\<lambda>k. status (app (run []
              (take k (turnEvents okReply stamp2 @ turnEvents okReply stamp3
                       @ [EffectFires stamp4]))
              startedWorld))) [0 ..< 7]
       = replicate 7 ACTIVE
   \<and> status (app endedWorld) = COMPLETED
   \<and> messages (app endedWorld) \<noteq> []
   \<and> \<not> hasSummarizedRef (app endedWorld)
   \<and> summaryCalls endedWorld = []
   \<and> summaryCalls (summaryEffect [] stamp1 endedWorld) = [summaryRequest [] endedWorld]
   \<and> hasSummarizedRef (app (summaryEffect [] stamp1 endedWorld))
   \<and> status (app startedWorld) = ACTIVE
   \<and> summaryEffect [] stamp1 startedWorld = startedWorld
   \<and> summaryCalls (step [] (Stop stamp2) startedWorld) = summaryCalls startedWorld
   \<and> summaryCalls (run [] laterEvents (summaryEffect [] stamp1 endedWorld))
       = [summaryRequest [] endedWorld]"
proof -
  let ?w = "summaryEffect [] stamp1 endedWorld"
  let ?es = "turnEvents okReply stamp2 @ turnEvents okReply stamp3 @ [EffectFires stamp4]"
  let ?p = "\<lparr>p_agents = [agentA], p_topic = [], p_maxTurns = 1, p_globalRules = []\<rparr>"
  have tp: "trim (topic (config (app ?w))) \<noteq> []"
    unfolding endedWorld_def startedWorld_def by code_simp
  have ky: "getEffectiveApiKey [] (config (app ?w)) \<noteq> []"
    unfolding endedWorld_def startedWorld_def by code_simp
  have l0: "\<not> hasSummarizedRef (app startedWorld)"
    unfolding startedWorld_def by code_simp
  have c0: "summaryCalls startedWorld = []"
    unfolding startedWorld_def by code_simp
  have pre: "map (\<lambda>k. status (app (run [] (take k ?es) startedWorld))) [0 ..< 7]
               = replicate 7 ACTIVE"
    unfolding startedWorld_def by code_simp
  have len: "length ?es = 7" by (simp add: turnEvents_def)
  have before: "\<forall>k < length ?es. status (app (run [] (take k ?es) startedWorld)) \<noteq> COMPLETED"
  proof (intro allI impI)
    fix k assume "k < length ?es"
    then have k: "k < 7" using len by simp
    then have "map (\<lambda>k. status (app (run [] (take k ?es) startedWorld))) [0 ..< 7] ! k
                 = status (app (run [] (take k ?es) startedWorld))"
      by simp
    moreover have "replicate 7 ACTIVE ! k = ACTIVE" using k by simp
    ultimately have "status (app (run [] (take k ?es) startedWorld)) = ACTIVE"
      using pre by simp
    then show "status (app (run [] (take k ?es) startedWorld)) \<noteq> COMPLETED" by simp
  qed
  have ne: "\<forall>e \<in> set ?es. \<not> restarts e" by (simp add: turnEvents_def)
  have s: "status (app endedWorld) = COMPLETED"
    unfolding endedWorld_def startedWorld_def by code_simp
  have m: "messages (app endedWorld) \<noteq> []"
    unfolding endedWorld_def startedWorld_def by code_simp
  have a: "status (app startedWorld) = ACTIVE"
    unfolding startedWorld_def by code_simp
  have n: "\<forall>e \<in> set laterEvents. \<not> restarts e"
    by (simp add: laterEvents_def)
  have o: "\<forall>st'. Stop stamp2 \<noteq> SummaryEffect st'" by simp
  note th1 = summary_once [of ?w "[]" ?p None stamp2 "Stop stamp2"]
  note th2 = summary_once [of endedWorld "[]" ?p None stamp1 "Stop stamp2"]
  note th3 = summary_once [of startedWorld "[]" ?p None stamp1 "Stop stamp2"]
  from th3 ne l0 before have "summaryCalls (run [] ?es startedWorld) = summaryCalls startedWorld
      \<and> \<not> hasSummarizedRef (app (run [] ?es startedWorld))"
    by blast
  then have c: "summaryCalls endedWorld = []" and l: "\<not> hasSummarizedRef (app endedWorld)"
    using c0 by (simp_all add: endedWorld_def)
  from th1 tp ky have 1: "\<not> hasSummarizedRef (app (handleStart [] None stamp2 ?w))"
    by blast
  from th2 s m l have 2: "summaryCalls ?w = summaryCalls endedWorld @ [summaryRequest [] endedWorld]"
    and 3: "hasSummarizedRef (app ?w)"
    by blast+
  from th3 a have 4: "summaryEffect [] stamp1 startedWorld = startedWorld"
    by simp
  from th3 o have 5: "summaryCalls (step [] (Stop stamp2) startedWorld) = summaryCalls startedWorld"
    by blast
  from th1 n 3 have 6: "summaryCalls (run [] laterEvents ?w) = summaryCalls ?w"
    by blast
  from tp ky 1 l0 pre s m l c 2 3 a 4 5 6 show ?thesis by simp
qed

end
